theory Spec2Isabelle
  imports Complex_Main
begin

text \<open>
  A model of the subtitle translation backend: the translation worker service
  (\<^verbatim>\<open>TranslationWorkerService\<close>: parsing, blueprint generation, context memory, triage
  and batched translation) and the queue module that runs it (\<^verbatim>\<open>createTranslationJob\<close>,
  \<^verbatim>\<open>startWorker\<close> and the event emitter \<^verbatim>\<open>jobEvents\<close>).  Asynchronous functions are
  programs over an explicit world; the generative model, the vector index, the subtitle
  library and the queue library are collaborators outside the repository.
\<close>

section \<open>JavaScript values of the translation worker\<close>

text \<open>
  Exceptions are values.  \<open>Error m\<close> is \<^verbatim>\<open>new Error(m)\<close> raised by the
  repository's own code, \<open>TypeError m\<close> is raised by the runtime on a property
  read of \<^verbatim>\<open>undefined\<close> or \<^verbatim>\<open>null\<close>, and \<open>Upstream m\<close> is whatever an
  external collaborator throws (the generative-model SDK, the vector-index
  client, the subtitle parser library, \<^verbatim>\<open>JSON.parse\<close>), with its message.
\<close>

datatype js_error = Error string | TypeError string | Upstream string

fun message :: "js_error \<Rightarrow> string" where
  "message (Error m) = m"
| "message (TypeError m) = m"
| "message (Upstream m) = m"

text \<open>
  Numbers are double-precision floating-point values.  A duration and a classification id
  are \<open>NaN\<close>, an infinity, or a finite double kept by the rational number it denotes;
  the two zeros are one value (the code subtracts, compares and prints numbers, and none
  of these tells them apart).
  A sequence number is what \<^verbatim>\<open>parseInt(s, 10)\<close> or \<^verbatim>\<open>index + 1\<close> produce: \<open>NaN\<close>,
  an infinity, or a double whose value is an integer.
\<close>

datatype jsnum = NaN | Num rat | Infinity | NegInfinity

datatype seqnum = SeqNaN | Seq int | SeqInfinity | SeqNegInfinity

text \<open>The number of binary digits of a natural number.\<close>

fun bit_length :: "nat \<Rightarrow> nat" where
  "bit_length n = (if n = 0 then 0 else Suc (bit_length (n div 2)))"

declare bit_length.simps [simp del]

text \<open>
  The double nearest to a natural number: the number itself below \<open>2^53\<close>; above, the
  53 leading binary digits, rounded to nearest with ties to the even significand;
  \<open>None\<close> when the rounded value exceeds the largest double (the number becomes
  \<^verbatim>\<open>Infinity\<close>).
\<close>

definition to_double :: "nat \<Rightarrow> nat option" where
  "to_double n =
     (if n < 2 ^ 53 then Some n
      else
        (let e = bit_length n - 53;
             q = n div 2 ^ e;
             r = n mod 2 ^ e;
             m = (if 2 ^ e < 2 * r \<or> (2 * r = 2 ^ e \<and> odd q) then q + 1 else q)
         in if 2 ^ 1024 \<le> m * 2 ^ e then None else Some (m * 2 ^ e)))"

text \<open>
  The double nearest to a rational number, with the same rounding; the unit in the last
  place is \<open>2^(e - 52)\<close> for a value in \<open>[2^e, 2^(e + 1))\<close> and \<open>2^(-1074)\<close> below
  \<open>2^(-1022)\<close>.
\<close>

definition pow2 :: "int \<Rightarrow> rat" where
  "pow2 e = (if 0 \<le> e then 2 ^ nat e else 1 / 2 ^ nat (- e))"

definition floor_log2 :: "rat \<Rightarrow> int" where
  "floor_log2 a =
     (case quotient_of a of (p, q) \<Rightarrow>
        (let e = int (bit_length (nat p)) - int (bit_length (nat q))
         in if pow2 e \<le> a then e else e - 1))"

definition round_half_even :: "rat \<Rightarrow> int" where
  "round_half_even a =
     (let f = \<lfloor>a\<rfloor>; d = a - of_int f
      in if d < 1 / 2 then f else if 1 / 2 < d then f + 1 else if even f then f else f + 1)"

definition round_double :: "rat \<Rightarrow> jsnum" where
  "round_double x =
     (if x = 0 then Num 0
      else
        (let a = \<bar>x\<bar>;
             u = pow2 (max (floor_log2 a) (- 1022) - 52);
             y = of_int (round_half_even (a / u)) * u
         in if pow2 1024 \<le> y then (if x < 0 then NegInfinity else Infinity)
            else Num (if x < 0 then - y else y)))"

text \<open>
  \<^verbatim>\<open>a - b\<close> where each operand is a number or \<^verbatim>\<open>undefined\<close> (\<open>None\<close>, the value of
  a property that the object does not have): \<^verbatim>\<open>undefined\<close> converts to \<open>NaN\<close>, and
  the difference of two doubles is the double nearest to the exact difference.
\<close>

definition toNumber :: "jsnum option \<Rightarrow> jsnum" where
  "toNumber v = (case v of None \<Rightarrow> NaN | Some d \<Rightarrow> d)"

fun double_sub :: "jsnum \<Rightarrow> jsnum \<Rightarrow> jsnum" where
  "double_sub NaN b = NaN"
| "double_sub a NaN = NaN"
| "double_sub Infinity Infinity = NaN"
| "double_sub NegInfinity NegInfinity = NaN"
| "double_sub Infinity b = Infinity"
| "double_sub NegInfinity b = NegInfinity"
| "double_sub (Num x) Infinity = NegInfinity"
| "double_sub (Num x) NegInfinity = Infinity"
| "double_sub (Num x) (Num y) = round_double (x - y)"

definition js_sub :: "jsnum option \<Rightarrow> jsnum option \<Rightarrow> jsnum" where
  "js_sub a b = double_sub (toNumber a) (toNumber b)"

definition isNaN :: "jsnum \<Rightarrow> bool" where
  "isNaN d = (d = NaN)"

text \<open>\<^verbatim>\<open>t.id === line.sequence\<close>: strict equality of two numbers; \<open>NaN\<close> equals nothing.\<close>

definition strict_eq :: "jsnum \<Rightarrow> seqnum \<Rightarrow> bool" where
  "strict_eq a b =
     (case (a, b) of
        (Num x, Seq n) \<Rightarrow> x = of_int n
      | (Infinity, SeqInfinity) \<Rightarrow> True
      | (NegInfinity, SeqNegInfinity) \<Rightarrow> True
      | _ \<Rightarrow> False)"

subsection \<open>Strings\<close>

text \<open>A string is the list of its code units, each below 256; white space is what
  \<^verbatim>\<open>trim\<close> and \<^verbatim>\<open>parseInt\<close> skip in that range.\<close>

definition is_ws :: "char \<Rightarrow> bool" where
  "is_ws c = (c \<in> set [CHR 0x09, CHR 0x0A, CHR 0x0B, CHR 0x0C, CHR 0x0D, CHR 0x20, CHR 0xA0])"

definition is_digit :: "char \<Rightarrow> bool" where
  "is_digit c = (48 \<le> (of_char c :: nat) \<and> (of_char c :: nat) \<le> 57)"

definition digit_val :: "char \<Rightarrow> nat" where
  "digit_val c = of_char c - 48"

definition digit_char :: "nat \<Rightarrow> char" where
  "digit_char d = char_of (48 + d)"

fun digits_val :: "nat \<Rightarrow> string \<Rightarrow> nat" where
  "digits_val acc [] = acc"
| "digits_val acc (c # cs) = digits_val (10 * acc + digit_val c) cs"

text \<open>\<^verbatim>\<open>parseInt(s, 10)\<close>: leading white space, an optional sign, the longest run of
  decimal digits; \<open>NaN\<close> when there is no digit, else the double nearest to the integer
  that the digits denote (correctly rounded, as Node's engine reads decimal digits).\<close>

definition parseInt10 :: "string \<Rightarrow> seqnum" where
  "parseInt10 s =
     (let t = dropWhile is_ws s;
          neg = (t \<noteq> [] \<and> hd t = CHR ''-'');
          u = (if t \<noteq> [] \<and> (hd t = CHR ''-'' \<or> hd t = CHR ''+'') then tl t else t);
          ds = takeWhile is_digit u
      in if ds = [] then SeqNaN
         else
           (case to_double (digits_val 0 ds) of
              None \<Rightarrow> (if neg then SeqNegInfinity else SeqInfinity)
            | Some v \<Rightarrow> Seq (if neg then - int v else int v)))"

fun nat_digits :: "nat \<Rightarrow> string" where
  "nat_digits n = (if n < 10 then [digit_char n] else nat_digits (n div 10) @ [digit_char (n mod 10)])"

declare nat_digits.simps [simp del]

text \<open>
  \<^verbatim>\<open>n.toString()\<close> and \<^verbatim>\<open>`${n}`\<close> for a sequence number.  The digits printed for a
  double \<open>x\<close> are those of the shortest decimal \<open>s * 10^(n - k)\<close> (\<open>s\<close> of \<open>k\<close> digits)
  that reads back as \<open>x\<close>, the closest to \<open>x\<close> among the shortest.  Below \<open>2^53\<close>
  every integer is a double and no other integer reads back as it, so the digits are
  its own.  From \<open>2^53\<close> on, \<open>k\<close> runs from 1 to 17, and for each \<open>k\<close> the multiples of
  \<open>10^(n - k)\<close> next to \<open>x\<close> are tried.  Up to 21 digits the number is printed in full,
  with zeros after the digits found; longer numbers are printed with an exponent.
  (A \<open>Seq\<close> that is no double is never built by the code; it prints all its digits.)
\<close>

definition digit_candidates :: "nat \<Rightarrow> nat \<Rightarrow> (nat \<times> nat) list" where
  "digit_candidates x k =
     concat (map (\<lambda>n.
       concat (map (\<lambda>s.
         if k \<le> n \<and> 10 ^ (k - 1) \<le> s \<and> s < 10 ^ k \<and> to_double (s * 10 ^ (n - k)) = Some x
         then [(s, n)] else [])
         [x div 10 ^ (n - k), Suc (x div 10 ^ (n - k))]))
       [length (nat_digits x), Suc (length (nat_digits x))])"

definition distance :: "nat \<Rightarrow> nat \<Rightarrow> nat \<times> nat \<Rightarrow> nat" where
  "distance x k c = (case c of (s, n) \<Rightarrow> nat \<bar>int (s * 10 ^ (n - k)) - int x\<bar>)"

fun closest :: "nat \<Rightarrow> nat \<Rightarrow> (nat \<times> nat) \<Rightarrow> (nat \<times> nat) list \<Rightarrow> nat \<times> nat" where
  "closest x k c [] = c"
| "closest x k c (d # ds) =
     (if distance x k d < distance x k c \<or> (distance x k d = distance x k c \<and> even (fst d))
      then closest x k d ds else closest x k c ds)"

fun shortest_digits :: "nat \<Rightarrow> nat list \<Rightarrow> nat \<times> nat \<times> nat" where
  "shortest_digits x [] = (x, length (nat_digits x), length (nat_digits x))"
| "shortest_digits x (k # ks) =
     (case digit_candidates x k of
        [] \<Rightarrow> shortest_digits x ks
      | c # cs \<Rightarrow> (case closest x k c cs of (s, n) \<Rightarrow> (s, k, n)))"

definition integer_to_string :: "nat \<Rightarrow> string" where
  "integer_to_string x =
     (if x < 2 ^ 53 then nat_digits x
      else
        (case shortest_digits x [1 ..< 18] of (s, k, n) \<Rightarrow>
           if n \<le> 21 then nat_digits s @ replicate (n - k) (CHR ''0'')
           else if k = 1 then nat_digits s @ ''e+'' @ nat_digits (n - 1)
           else hd (nat_digits s) # CHR ''.'' # tl (nat_digits s) @ ''e+'' @ nat_digits (n - 1)))"

fun numToString :: "seqnum \<Rightarrow> string" where
  "numToString SeqNaN = ''NaN''"
| "numToString SeqInfinity = ''Infinity''"
| "numToString SeqNegInfinity = ''-Infinity''"
| "numToString (Seq n) =
     (if n < 0 then CHR ''-'' # integer_to_string (nat (- n)) else integer_to_string (nat n))"

text \<open>\<^verbatim>\<open>s.trim()\<close>.\<close>

definition trim :: "string \<Rightarrow> string" where
  "trim s = rev (dropWhile is_ws (rev (dropWhile is_ws s)))"

text \<open>\<^verbatim>\<open>s.replace(/<[^>]*>/g, '')\<close>: every \<open><\<close> that has a \<open>>\<close> after it is removed
  together with everything up to the first such \<open>>\<close>; scanning resumes behind it.\<close>

function strip_tags :: "string \<Rightarrow> string" where
  "strip_tags [] = []"
| "strip_tags (c # cs) =
     (if c = CHR ''<'' then
        (case dropWhile (\<lambda>d. d \<noteq> CHR ''>'') cs of
           [] \<Rightarrow> c # cs
         | _ # rest \<Rightarrow> strip_tags rest)
      else c # strip_tags cs)"
  by pat_completeness auto
termination
proof (relation "measure length")
  show "wf (measure length)" by simp
next
  fix c :: char and cs x y
  assume "dropWhile (\<lambda>d. d \<noteq> CHR ''>'') cs = x # y"
  then have "length (x # y) \<le> length cs"
    using length_dropWhile_le [of "\<lambda>d. d \<noteq> CHR ''>''" cs] by simp
  then show "(y, c # cs) \<in> measure length" by simp
next
  fix c :: char and cs
  show "(cs, c # cs) \<in> measure length" by simp
qed

text \<open>\<^verbatim>\<open>s.split('\n')\<close> and \<^verbatim>\<open>xs.join(sep)\<close>.\<close>

fun split_nl :: "string \<Rightarrow> string list" where
  "split_nl [] = [[]]"
| "split_nl (c # cs) =
     (if c = CHR 0x0A then [] # split_nl cs
      else (case split_nl cs of [] \<Rightarrow> [[c]] | seg # segs \<Rightarrow> (c # seg) # segs))"

fun join :: "string \<Rightarrow> string list \<Rightarrow> string" where
  "join sep [] = []"
| "join sep [x] = x"
| "join sep (x # y # ys) = x @ sep @ join sep (y # ys)"

section \<open>Subtitle parser\<close>

text \<open>
  \<^verbatim>\<open>SrtLine\<close> of \<^verbatim>\<open>types.ts\<close> (the field \<^verbatim>\<open>text\<close> is written \<open>text'\<close>).
\<close>

record SrtLine =
  sequence :: seqnum
  startTime :: string
  endTime :: string
  duration :: jsnum
  text' :: string

record TranslatedSrtLine = SrtLine +
  translatedText :: string

text \<open>
  The library \<^verbatim>\<open>srt-parser-2\<close> is a dependency, not part of the repository; it is a
  parameter.  \<open>fromSrt\<close> returns the blocks it recognised or throws; a block has the
  properties that the library's type declaration publishes: \<^verbatim>\<open>id\<close>, \<^verbatim>\<open>startTime\<close>,
  \<^verbatim>\<open>startSeconds\<close>, \<^verbatim>\<open>endTime\<close>, \<^verbatim>\<open>endSeconds\<close> and \<^verbatim>\<open>text\<close>.
  \<open>toSrt\<close> serialises blocks given by \<^verbatim>\<open>id\<close>, \<^verbatim>\<open>startTime\<close>, \<^verbatim>\<open>endTime\<close>, \<^verbatim>\<open>text\<close>.
\<close>

record Line =
  lid :: string
  lstartTime :: string
  lstartSeconds :: jsnum
  lendTime :: string
  lendSeconds :: jsnum
  ltext :: string

record SrtItem =
  item_id :: string
  item_startTime :: string
  item_endTime :: string
  item_text :: string

record srt_parser =
  fromSrt :: "string \<Rightarrow> js_error + Line list"
  toSrt :: "SrtItem list \<Rightarrow> string"

definition try_catch :: "js_error + 'a \<Rightarrow> (js_error \<Rightarrow> js_error + 'a) \<Rightarrow> js_error + 'a" where
  "try_catch body handler = (case body of Inl e \<Rightarrow> handler e | Inr v \<Rightarrow> Inr v)"

text \<open>
  The callback of \<^verbatim>\<open>srtArray.map\<close> in \<^verbatim>\<open>parseSrt\<close>.  It reads \<^verbatim>\<open>line.endTimeSeconds\<close>
  and \<^verbatim>\<open>line.startTimeSeconds\<close>; a block has no property of either name (its seconds
  are \<^verbatim>\<open>endSeconds\<close> and \<^verbatim>\<open>startSeconds\<close>), so both reads yield \<^verbatim>\<open>undefined\<close>.
\<close>

definition prop_endTimeSeconds :: "Line \<Rightarrow> jsnum option" where
  "prop_endTimeSeconds line = None"

definition prop_startTimeSeconds :: "Line \<Rightarrow> jsnum option" where
  "prop_startTimeSeconds line = None"

definition parsed_line :: "Line \<Rightarrow> SrtLine" where
  "parsed_line line =
     (let duration = js_sub (prop_endTimeSeconds line) (prop_startTimeSeconds line)
      in \<lparr> sequence = parseInt10 (lid line),
           startTime = lstartTime line,
           endTime = lendTime line,
           duration = (if isNaN duration then Num 0 else duration),
           text' = trim (strip_tags (ltext line)) \<rparr>)"

text \<open>The callback of \<^verbatim>\<open>srtContent.split('\n').map\<close> in the \<^verbatim>\<open>catch\<close> branch.\<close>

definition fallback_line :: "nat \<times> string \<Rightarrow> SrtLine" where
  "fallback_line p =
     (case p of (index, text) \<Rightarrow>
        \<lparr> sequence = Seq (int index + 1), startTime = ''00:00:00,000'',
          endTime = ''00:00:00,000'', duration = Num 0, text' = text \<rparr>)"

definition parseSrt :: "srt_parser \<Rightarrow> string \<Rightarrow> js_error + SrtLine list" where
  "parseSrt parser srtContent =
     try_catch
       (case fromSrt parser srtContent of
          Inl e \<Rightarrow> Inl e
        | Inr srtArray \<Rightarrow> Inr (map parsed_line srtArray))
       (\<lambda>error. Inr (map fallback_line (enumerate 0 (split_nl srtContent))))"

text \<open>\<^verbatim>\<open>toSrtString\<close>: the blocks handed to the library's serialiser.\<close>

definition srt_item :: "TranslatedSrtLine \<Rightarrow> SrtItem" where
  "srt_item line =
     \<lparr> item_id = numToString (sequence line), item_startTime = startTime line,
       item_endTime = endTime line, item_text = translatedText line \<rparr>"

definition toSrtString :: "srt_parser \<Rightarrow> TranslatedSrtLine list \<Rightarrow> string" where
  "toSrtString parser lines = toSrt parser (map srt_item lines)"

section \<open>Data model\<close>

text \<open>
  The interfaces of \<^verbatim>\<open>types.ts\<close>.  Field names that several interfaces share carry
  a prefix here (\<^verbatim>\<open>term\<close> is \<open>u_term\<close>, \<open>g_term\<close>, \<open>k_term\<close>).  The two blueprint fields
  the code tests for presence (\<^verbatim>\<open>glossary\<close>, \<^verbatim>\<open>culturalNuances\<close>) are optional.
\<close>

record UserGlossaryItem =
  u_term :: string
  u_translation :: string

datatype TranslationType = Transliteration | DirectTranslation | Hybrid | CommonUsage | Adaptation

record GlossaryTerm =
  g_term :: string
  g_definition :: string
  proposedTranslation :: string
  translationType :: TranslationType
  justification :: string
  alternatives :: "string list"

record CharacterProfile =
  personaName :: string
  speakingStyle :: string
  voiceConsistencyRule :: string

record TranslationBlueprint =
  summary :: string
  keyPoints :: "string list"
  characterProfiles :: "CharacterProfile list"
  culturalNuances :: "string list option"
  glossary :: "GlossaryTerm list option"

record Keyword =
  k_term :: string
  k_definition :: string

record GroundedKeyword = Keyword +
  k_translations :: "string list"

text \<open>An entry of the triage result, \<^verbatim>\<open>{ id: number, model: 'flash' | 'pro' }\<close>; the code
  reads \<^verbatim>\<open>model\<close> with \<^verbatim>\<open>?.model || 'flash'\<close>, so it may be missing.\<close>

record Classification =
  c_id :: jsnum
  c_model :: "string option"

text \<open>
  What \<^verbatim>\<open>runJsonTool\<close> returns is typed \<^verbatim>\<open>any\<close>; its callers read one property each.
  A parsed response is \<^verbatim>\<open>null\<close> or an object of one of the four shapes that the prompts
  ask for, each with its optional property.
\<close>

datatype ai_json =
    JsonNull
  | KeywordsJson "Keyword list option"
  | GroundedJson "GroundedKeyword list option"
  | ClassificationsJson "Classification list option"
  | BlueprintJson TranslationBlueprint

fun prop_keywords :: "ai_json \<Rightarrow> js_error + Keyword list option" where
  \<open>prop_keywords JsonNull = Inl (TypeError ''Cannot read properties of null (reading \'keywords\')'')\<close>
| "prop_keywords (KeywordsJson ks) = Inr ks"
| "prop_keywords _ = Inr None"

fun prop_grounded_keywords :: "ai_json \<Rightarrow> js_error + GroundedKeyword list option" where
  \<open>prop_grounded_keywords JsonNull =
     Inl (TypeError ''Cannot read properties of null (reading \'grounded_keywords\')'')\<close>
| "prop_grounded_keywords (GroundedJson gs) = Inr gs"
| "prop_grounded_keywords _ = Inr None"

fun prop_classifications :: "ai_json \<Rightarrow> js_error + Classification list option" where
  \<open>prop_classifications JsonNull =
     Inl (TypeError ''Cannot read properties of null (reading \'classifications\')'')\<close>
| "prop_classifications (ClassificationsJson cs) = Inr cs"
| "prop_classifications _ = Inr None"

fun prop_glossary :: "ai_json \<Rightarrow> js_error + GlossaryTerm list option" where
  \<open>prop_glossary JsonNull = Inl (TypeError ''Cannot read properties of null (reading \'glossary\')'')\<close>
| "prop_glossary (BlueprintJson b) = Inr (glossary b)"
| "prop_glossary _ = Inr None"

section \<open>Effects and external services\<close>

type_synonym embedding = "rat list"

text \<open>A vector of the index, \<^verbatim>\<open>{ id, values, metadata: { jobId, text } }\<close>; a query,
  \<^verbatim>\<open>{ vector, topK, filter: { jobId } }\<close>; a match, of which only
  \<^verbatim>\<open>metadata?.text\<close> is read.\<close>

record Vector =
  v_id :: string
  v_values :: embedding
  v_jobId :: string
  v_text :: string

record QueryRequest =
  q_vector :: embedding
  q_topK :: nat
  q_filter_jobId :: string

record Match =
  m_text :: "string option"

text \<open>The events of the process-wide emitter \<^verbatim>\<open>jobEvents\<close>, \<^verbatim>\<open>{ type, payload }\<close>.\<close>

datatype event =
    Progress string
  | BlueprintReady TranslationBlueprint
  | Completed string
  | Failed string

text \<open>
  Everything the worker does to the outside is recorded, in order, in a trace:
  a progress update of the queue job, an event emitted on the bus under a job id, a
  generation call (model, JSON mode, prompt), the embedding calls, the vector-index
  calls, and console output.
\<close>

datatype effect =
    UpdateProgress string
  | Emit string event
  | GenerateContent string bool string
  | BatchEmbedContents "string list"
  | EmbedContent string
  | Upsert "Vector list"
  | Query QueryRequest
  | ConsoleLog string
  | ConsoleError string

record world =
  trace :: "effect list"
  pinecone :: "string \<rightharpoonup> Vector"

text \<open>
  The collaborators outside the repository.  Each answers a call from the history of
  effects so far and the call's arguments, with a result or a thrown error; nothing else
  is assumed about them.  \<^verbatim>\<open>JSON.parse\<close> and \<^verbatim>\<open>JSON.stringify\<close> (at the three types it
  is applied to) and the subtitle library belong here too.
\<close>

record env =
  generateContent :: "effect list \<Rightarrow> string \<Rightarrow> bool \<Rightarrow> string \<Rightarrow> js_error + string"
  batchEmbedContents :: "effect list \<Rightarrow> string list \<Rightarrow> js_error + embedding list"
  embedContent :: "effect list \<Rightarrow> string \<Rightarrow> js_error + embedding"
  upsert :: "effect list \<Rightarrow> Vector list \<Rightarrow> js_error option"
  query :: "effect list \<Rightarrow> QueryRequest \<Rightarrow> js_error + Match list option"
  JSON_parse :: "string \<Rightarrow> js_error + ai_json"
  stringify_keywords :: "Keyword list \<Rightarrow> string"
  stringify_grounded :: "GroundedKeyword list \<Rightarrow> string"
  stringify_glossary :: "UserGlossaryItem list \<Rightarrow> string"
  srtParser :: srt_parser

subsection \<open>Programs: state passing with exceptions\<close>

type_synonym 'a prog = "world \<Rightarrow> (js_error + 'a) \<times> world"

definition ret :: "'a \<Rightarrow> 'a prog" where
  "ret v = (\<lambda>w. (Inr v, w))"

definition throw :: "js_error \<Rightarrow> 'a prog" where
  "throw e = (\<lambda>w. (Inl e, w))"

definition bind :: "'a prog \<Rightarrow> ('a \<Rightarrow> 'b prog) \<Rightarrow> 'b prog" where
  "bind m f = (\<lambda>w. case m w of (Inl e, w') \<Rightarrow> (Inl e, w') | (Inr v, w') \<Rightarrow> f v w')"

definition catch :: "'a prog \<Rightarrow> (js_error \<Rightarrow> 'a prog) \<Rightarrow> 'a prog" where
  "catch m handler = (\<lambda>w. case m w of (Inl e, w') \<Rightarrow> handler e w' | (Inr v, w') \<Rightarrow> (Inr v, w'))"

definition lift :: "js_error + 'a \<Rightarrow> 'a prog" where
  "lift r = (\<lambda>w. (r, w))"

text \<open>An effect without a result, and a call to a collaborator: the effect is appended to
  the trace, the collaborator answers from the history before the call.\<close>

definition perform :: "effect \<Rightarrow> unit prog" where
  "perform e = (\<lambda>w. (Inr (), w\<lparr>trace := trace w @ [e]\<rparr>))"

definition call :: "effect \<Rightarrow> (effect list \<Rightarrow> js_error + 'a) \<Rightarrow> 'a prog" where
  "call e answer = (\<lambda>w. (answer (trace w), w\<lparr>trace := trace w @ [e]\<rparr>))"

text \<open>
  Modelled from the spec: the vector index service is not among the sources.
  \<^verbatim>\<open>pineconeIndex.upsert(vectors)\<close> either throws and stores nothing, or stores every
  vector under its id, replacing an older one with that id.  What a query returns is left
  to the collaborator.
\<close>

definition store_vectors :: "Vector list \<Rightarrow> (string \<rightharpoonup> Vector) \<Rightarrow> (string \<rightharpoonup> Vector)" where
  "store_vectors vs index = fold (\<lambda>v m. m(v_id v \<mapsto> v)) vs index"

definition upsert_call :: "env \<Rightarrow> Vector list \<Rightarrow> unit prog" where
  "upsert_call env vs =
     (\<lambda>w. case upsert env (trace w) vs of
            Some e \<Rightarrow> (Inl e, w\<lparr>trace := trace w @ [Upsert vs]\<rparr>)
          | None \<Rightarrow> (Inr (), w\<lparr>trace := trace w @ [Upsert vs],
                                 pinecone := store_vectors vs (pinecone w)\<rparr>))"

text \<open>The slices \<^verbatim>\<open>xs.slice(i, i + n)\<close> for \<^verbatim>\<open>i\<close> running from a start in steps of \<^verbatim>\<open>n\<close>
  while \<^verbatim>\<open>i < xs.length\<close> (\<^verbatim>\<open>n\<close> is a positive constant wherever the code does this).\<close>

function slices :: "nat \<Rightarrow> nat \<Rightarrow> 'a list \<Rightarrow> 'a list list" where
  "slices n i xs = (if 0 < n \<and> i < length xs then take n (drop i xs) # slices n (i + n) xs else [])"
  by pat_completeness auto
termination
  by (relation "measure (\<lambda>(n, i, xs). length xs - i)") auto

declare slices.simps [simp del]

section \<open>The translation worker service\<close>

definition flashModel :: string where
  "flashModel = ''gemini-2.5-flash''"

definition proModel :: string where
  "proModel = ''gemini-2.5-pro''"

definition linesPerBatch :: nat where
  "linesPerBatch = 15"

subsection \<open>Prompts\<close>

definition getPhase1A_Prompt :: "string \<Rightarrow> string" where
  \<open>getPhase1A_Prompt subtitle =
     ''Analyze the subtitle text. Extract technical terms, named entities, and '' @
     ''idioms. For each, find a concise definition. Respond with a single JSON '' @
     ''object: `{ "keywords": [{ "term": string, "definition": string }] }`. If '' @
     ''none, return empty array. Text: """'' @
     subtitle @
     ''"""''\<close>

definition getPhase1B_Prompt :: "env \<Rightarrow> Keyword list \<Rightarrow> string" where
  \<open>getPhase1B_Prompt env keywords =
     ''For each English term, find 3 common Persian translations. Respond with a '' @
     ''single JSON object: `{ "grounded_keywords": [{ "term": string, '' @
     ''"translations": [string] }] }`. Terms: '' @
     stringify_keywords env keywords\<close>

definition getPhase1C_Prompt ::
  "env \<Rightarrow> string \<Rightarrow> string \<Rightarrow> GroundedKeyword list \<Rightarrow> UserGlossaryItem list \<Rightarrow> string" where
  \<open>getPhase1C_Prompt env subtitle tone groundedKeywords userGlossary =
     ''Generate a "Translation Blueprint" JSON. Analyze the script for summary, '' @
     ''keyPoints, characterProfiles, and culturalNuances.\<newline>'' @
     ''    **Glossary Rules (CRITICAL):**\<newline>'' @
     ''    1.  The User-Provided Glossary is SACROSANCT. For every term in it, its '' @
     ''translation MUST be used as the \'proposedTranslation\'.\<newline>'' @
     ''    2.  For the remaining AI-Generated Keywords, select the best '' @
     [CHR 0x27] @ ''proposedTranslation\' from its \'translations\' array based on the '' @ [CHR 0x27] @
     tone @
     [CHR 0x27] @ '' tone and script context.\<newline>'' @
     ''    3.  Justify each choice with evidence from the script.\<newline>'' @
     ''    **User-Provided Glossary:** '' @
     stringify_glossary env userGlossary @
     ''\<newline>'' @
     ''    **AI-Generated Keywords:** '' @
     stringify_grounded env groundedKeywords @
     ''\<newline>'' @
     ''    **Script:** """'' @
     subtitle @
     ''"""''\<close>

text \<open>
  The triage prompt labels each line with \<^verbatim>\<open>l.id\<close>.  An \<^verbatim>\<open>SrtLine\<close> has no property
  \<^verbatim>\<open>id\<close>: the objects \<^verbatim>\<open>parseSrt\<close> builds carry \<^verbatim>\<open>sequence\<close>, \<^verbatim>\<open>startTime\<close>, \<^verbatim>\<open>endTime\<close>,
  \<^verbatim>\<open>duration\<close> and \<^verbatim>\<open>text\<close> only, so the read yields \<^verbatim>\<open>undefined\<close>, which a template
  literal prints as the word \<^verbatim>\<open>undefined\<close>.
\<close>

definition prop_id :: "SrtLine \<Rightarrow> seqnum option" where
  "prop_id l = None"

definition template_number :: "seqnum option \<Rightarrow> string" where
  "template_number v = (case v of None \<Rightarrow> ''undefined'' | Some n \<Rightarrow> numToString n)"

definition triage_row :: "SrtLine \<Rightarrow> string" where
  "triage_row l = template_number (prop_id l) @ '' | '' @ text' l"

definition getTriageAgentPrompt :: "SrtLine list \<Rightarrow> string" where
  \<open>getTriageAgentPrompt batch =
     ''You are a linguistic triage agent. Classify each subtitle line\'s complexity. '' @
     ''Respond with a JSON array ONLY: `{ "classifications": [{ "id": number, '' @
     ''"model": "flash" | "pro" }] }`.\<newline>'' @
     ''    - Use "pro" for lines with idioms, complex grammar, slang, or deep '' @
     ''emotional/cultural nuance.\<newline>'' @
     ''    - Use "flash" for simple, direct, or declarative sentences.\<newline>'' @
     ''    Input for Classification:\<newline>'' @
     ''    ---\<newline>'' @
     ''    '' @
     join ''\<newline>'' (map triage_row batch) @
     ''\<newline>'' @
     ''    ---\<newline>'' @
     ''    Produce the JSON output.''\<close>

definition getStep2_Prompt :: "SrtLine \<Rightarrow> string \<Rightarrow> string \<Rightarrow> string \<Rightarrow> string" where
  \<open>getStep2_Prompt line context brief tone =
     ''You are a Master Transcreator. Transcreate ONLY the "Current Line" into '' @
     ''fluent Persian, adhering to the "Project Brief" and '' @ [CHR 0x27] @
     tone @
     [CHR 0x27] @ '' tone. Use the "Long-Term Memory" for context.\<newline>'' @
     ''Project Brief:\<newline>'' @
     ''---\<newline>'' @
     brief @
     ''\<newline>'' @
     ''---\<newline>'' @
     ''Long-Term Memory (Context from script):\<newline>'' @
     ''---\<newline>'' @
     context @
     ''\<newline>'' @
     ''---\<newline>'' @
     ''Current Line: "'' @
     text' line @
     ''"\<newline>'' @
     ''---\<newline>'' @
     ''Provide ONLY the single line of Persian transcreation.''\<close>

subsection \<open>The gateway to the generative model\<close>

definition runJsonTool :: "env \<Rightarrow> string \<Rightarrow> string \<Rightarrow> ai_json prog" where
  "runJsonTool env modelName prompt =
     catch
       (bind (call (GenerateContent modelName True prompt)
                (\<lambda>h. generateContent env h modelName True prompt))
          (\<lambda>response. lift (JSON_parse env response)))
       (\<lambda>error.
          bind (perform (ConsoleError (''Error running JSON tool with model '' @ modelName @ '':'')))
            (\<lambda>_. throw (Error ''An internal AI error occurred while processing data.'')))"

definition runTextGen :: "env \<Rightarrow> string \<Rightarrow> string \<Rightarrow> string prog" where
  "runTextGen env modelName prompt =
     catch
       (call (GenerateContent modelName False prompt)
          (\<lambda>h. generateContent env h modelName False prompt))
       (\<lambda>error.
          bind (perform (ConsoleError (''Error running text generation with model '' @ modelName @ '':'')))
            (\<lambda>_. throw (Error ''An internal AI error occurred during translation.'')))"

subsection \<open>The context memory\<close>

text \<open>\<^verbatim>\<open>lines.map((line, i) => ({ id, values: embeddings.embeddings[i].values, metadata }))\<close>:
  a line without its embedding is a read of \<^verbatim>\<open>undefined\<close>.\<close>

fun build_vectors :: "string \<Rightarrow> SrtLine list \<Rightarrow> embedding list \<Rightarrow> js_error + Vector list" where
  "build_vectors jobId [] es = Inr []"
| \<open>build_vectors jobId (line # ls) [] =
     Inl (TypeError ''Cannot read properties of undefined (reading \'values\')'')\<close>
| "build_vectors jobId (line # ls) (e # es) =
     (case build_vectors jobId ls es of
        Inl err \<Rightarrow> Inl err
      | Inr vs \<Rightarrow>
          Inr (\<lparr> v_id = jobId @ ''-'' @ numToString (sequence line), v_values = e,
                 v_jobId = jobId, v_text = text' line \<rparr> # vs))"

fun upsert_all :: "env \<Rightarrow> Vector list list \<Rightarrow> unit prog" where
  "upsert_all env [] = ret ()"
| "upsert_all env (chunk # chunks) = bind (upsert_call env chunk) (\<lambda>_. upsert_all env chunks)"

definition indexContent :: "env \<Rightarrow> string \<Rightarrow> SrtLine list \<Rightarrow> unit prog" where
  "indexContent env jobId lines =
     bind (call (BatchEmbedContents (map text' lines))
             (\<lambda>h. batchEmbedContents env h (map text' lines)))
       (\<lambda>embeddings.
     bind (lift (build_vectors jobId lines embeddings))
       (\<lambda>vectors. upsert_all env (slices 100 0 vectors)))"

definition no_context :: string where
  "no_context = ''No relevant context found.''"

text \<open>\<^verbatim>\<open>matches.map(match => match.metadata?.text).join('\n')\<close>; \<^verbatim>\<open>join\<close> prints a
  missing text as the empty string.\<close>

definition matched_texts :: "Match list \<Rightarrow> string" where
  "matched_texts ms = join ''\<newline>'' (map (\<lambda>m. case m_text m of None \<Rightarrow> [] | Some t \<Rightarrow> t) ms)"

definition query_request :: "string \<Rightarrow> embedding \<Rightarrow> nat \<Rightarrow> QueryRequest" where
  "query_request jobId embedding topK =
     \<lparr> q_vector = embedding, q_topK = topK, q_filter_jobId = jobId \<rparr>"

definition queryContext :: "env \<Rightarrow> string \<Rightarrow> string \<Rightarrow> nat \<Rightarrow> string prog" where
  "queryContext env jobId content topK =
     bind (call (EmbedContent content) (\<lambda>h. embedContent env h content))
       (\<lambda>embedding.
     bind (call (Query (query_request jobId embedding topK))
             (\<lambda>h. query env h (query_request jobId embedding topK)))
       (\<lambda>matches.
     ret (case matches of
            None \<Rightarrow> no_context
          | Some ms \<Rightarrow> if matched_texts ms = [] then no_context else matched_texts ms)))"

definition cleanupIndex :: "string \<Rightarrow> unit prog" where
  "cleanupIndex jobId =
     perform (ConsoleLog (''Cleanup for job '' @ jobId @ '' would be performed here.''))"

subsection \<open>Blueprint\<close>

definition generateBlueprint ::
  "env \<Rightarrow> string \<Rightarrow> string \<Rightarrow> UserGlossaryItem list \<Rightarrow> (string \<Rightarrow> unit prog)
     \<Rightarrow> TranslationBlueprint prog" where
  "generateBlueprint env subtitleContent tone userGlossary updateStage =
     bind (lift (parseSrt (srtParser env) subtitleContent))
       (\<lambda>lines.
     let subtitleText = join ''\<newline>'' (map text' lines) in
     bind (updateStage ''Phase 1a: Extracting Keywords...'')
       (\<lambda>_.
     bind (runJsonTool env flashModel (getPhase1A_Prompt subtitleText))
       (\<lambda>r1.
     bind (lift (prop_keywords r1))
       (\<lambda>k.
     let keywords = (case k of None \<Rightarrow> [] | Some ks \<Rightarrow> ks) in
     bind (updateStage ''Phase 1b: Grounding Translations...'')
       (\<lambda>_.
     bind (runJsonTool env flashModel (getPhase1B_Prompt env keywords))
       (\<lambda>r2.
     bind (lift (prop_grounded_keywords r2))
       (\<lambda>g.
     let groundedKeywords = (case g of None \<Rightarrow> [] | Some gs \<Rightarrow> gs) in
     bind (updateStage ''Phase 1c: Assembling Blueprint...'')
       (\<lambda>_.
     bind (runJsonTool env proModel
             (getPhase1C_Prompt env subtitleText tone groundedKeywords userGlossary))
       (\<lambda>blueprint.
     bind (lift (prop_glossary blueprint))
       (\<lambda>gl.
     case (blueprint, gl) of
       (BlueprintJson b, Some entries) \<Rightarrow> ret b
     | _ \<Rightarrow> throw (Error ''AI failed to generate a valid blueprint.'')))))))))))"

text \<open>\<^verbatim>\<open>stringifyBlueprint\<close>; \<^verbatim>\<open>blueprint.glossary.forEach\<close> on a blueprint without a
  glossary is a read of \<^verbatim>\<open>undefined\<close>.\<close>

definition profile_text :: "CharacterProfile \<Rightarrow> string" where
  "profile_text p =
     ''- Persona: '' @ personaName p @ ''\<newline>  - Style: '' @ speakingStyle p @
     ''\<newline>  - Rule: '' @ voiceConsistencyRule p @ ''\<newline>''"

definition glossary_text :: "GlossaryTerm \<Rightarrow> string" where
  \<open>glossary_text g =
     ''- Term: "'' @ g_term g @ ''"\<newline>  - Approved Persian: "'' @ proposedTranslation g @
     ''"\<newline>''\<close>

definition stringifyBlueprint :: "TranslationBlueprint \<Rightarrow> js_error + string" where
  \<open>stringifyBlueprint blueprint =
     (case glossary blueprint of
        None \<Rightarrow> Inl (TypeError ''Cannot read properties of undefined (reading \'forEach\')'')
      | Some entries \<Rightarrow>
          Inr (''**1. Plot & Theme Synthesis:**\<newline>- Summary: '' @ summary blueprint @
               ''\<newline>- Key Themes: '' @ join '', '' (keyPoints blueprint) @ ''\<newline>\<newline>'' @
               ''**2. Character Persona Profiles:**\<newline>'' @
               concat (map profile_text (characterProfiles blueprint)) @
               ''\<newline>**3. "World Anvil" Glossary (Sacrosanct):**\<newline>'' @
               concat (map glossary_text entries) @
               (case culturalNuances blueprint of
                  None \<Rightarrow> []
                | Some nuances \<Rightarrow>
                    if 0 < length nuances
                    then ''\<newline>**4. Cultural Nuances:**\<newline>- '' @ join ''\<newline>- '' nuances @
                         ''\<newline>''
                    else [])))\<close>

subsection \<open>Batched translation\<close>

text \<open>\<^verbatim>\<open>s.toUpperCase()\<close> on ASCII letters (model names are ASCII).\<close>

definition toUpperCase :: "string \<Rightarrow> string" where
  "toUpperCase s =
     map (\<lambda>c. if 97 \<le> (of_char c :: nat) \<and> (of_char c :: nat) \<le> 122
              then char_of ((of_char c :: nat) - 32) else c) s"

text \<open>\<^verbatim>\<open>triageResult.find(t => t.id === line.sequence)?.model || 'flash'\<close> and the model
  that choice selects.\<close>

definition modelChoice :: "Classification list \<Rightarrow> SrtLine \<Rightarrow> string" where
  "modelChoice triageResult line =
     (case find (\<lambda>t. strict_eq (c_id t) (sequence line)) triageResult of
        None \<Rightarrow> ''flash''
      | Some t \<Rightarrow> (case c_model t of
                    None \<Rightarrow> ''flash''
                  | Some m \<Rightarrow> if m = [] then ''flash'' else m))"

definition modelToUse :: "string \<Rightarrow> string" where
  "modelToUse choice = (if choice = ''pro'' then proModel else flashModel)"

definition triageBatch :: "env \<Rightarrow> SrtLine list \<Rightarrow> Classification list prog" where
  "triageBatch env batch =
     bind (runJsonTool env flashModel (getTriageAgentPrompt batch))
       (\<lambda>result.
     bind (lift (prop_classifications result))
       (\<lambda>cs. ret (case cs of None \<Rightarrow> [] | Some c \<Rightarrow> c)))"

text \<open>The body of the loop over the lines of a batch.\<close>

definition translate_line ::
  "env \<Rightarrow> string \<Rightarrow> string \<Rightarrow> string \<Rightarrow> (string \<Rightarrow> unit prog) \<Rightarrow> Classification list
     \<Rightarrow> SrtLine \<Rightarrow> string prog" where
  "translate_line env jobId tone translationBrief updateStage triageResult line =
     bind (updateStage (''Translating line '' @ numToString (sequence line) @ '' with '' @
                        toUpperCase (modelChoice triageResult line) @ '' model''))
       (\<lambda>_.
     bind (queryContext env jobId (text' line) 5)
       (\<lambda>longTermContext.
     runTextGen env (modelToUse (modelChoice triageResult line))
       (getStep2_Prompt line longTermContext translationBrief tone)))"

fun translate_lines ::
  "env \<Rightarrow> string \<Rightarrow> string \<Rightarrow> string \<Rightarrow> (string \<Rightarrow> unit prog) \<Rightarrow> Classification list
     \<Rightarrow> SrtLine list \<Rightarrow> string list prog" where
  "translate_lines env jobId tone translationBrief updateStage triageResult [] = ret []"
| "translate_lines env jobId tone translationBrief updateStage triageResult (line # rest) =
     bind (translate_line env jobId tone translationBrief updateStage triageResult line)
       (\<lambda>translation.
     bind (translate_lines env jobId tone translationBrief updateStage triageResult rest)
       (\<lambda>translations. ret (translation # translations)))"

text \<open>\<^verbatim>\<open>{ ...line, translatedText }\<close>.\<close>

definition with_translation :: "SrtLine \<Rightarrow> string \<Rightarrow> TranslatedSrtLine" where
  "with_translation line t =
     \<lparr> sequence = sequence line, startTime = startTime line, endTime = endTime line,
       duration = duration line, text' = text' line, translatedText = t \<rparr>"

text \<open>The loop over the batches; \<open>i\<close> is the index of the first batch of the list and
  \<open>n_batches\<close> is \<^verbatim>\<open>batches.length\<close>.  The translated lines of the batches are appended in
  order.\<close>

fun translate_batches ::
  "env \<Rightarrow> string \<Rightarrow> string \<Rightarrow> string \<Rightarrow> (string \<Rightarrow> unit prog) \<Rightarrow> nat \<Rightarrow> nat
     \<Rightarrow> SrtLine list list \<Rightarrow> TranslatedSrtLine list prog" where
  "translate_batches env jobId tone translationBrief updateStage n_batches i [] = ret []"
| "translate_batches env jobId tone translationBrief updateStage n_batches i (batch # rest) =
     bind (updateStage (''Triage Agent classifying Batch '' @ nat_digits (i + 1) @ '' of '' @
                        nat_digits n_batches))
       (\<lambda>_.
     bind (triageBatch env batch)
       (\<lambda>triageResult.
     bind (translate_lines env jobId tone translationBrief updateStage triageResult batch)
       (\<lambda>translatedTextLines.
     bind (translate_batches env jobId tone translationBrief updateStage n_batches (i + 1) rest)
       (\<lambda>later. ret (map2 with_translation batch translatedTextLines @ later)))))"

definition executeTranslation ::
  "env \<Rightarrow> string \<Rightarrow> string \<Rightarrow> string \<Rightarrow> string \<Rightarrow> (string \<Rightarrow> unit prog) \<Rightarrow> string prog" where
  "executeTranslation env jobId subtitleContent tone translationBrief updateStage =
     bind (lift (parseSrt (srtParser env) subtitleContent))
       (\<lambda>srtLines.
     bind (updateStage ''Indexing script for long-term memory...'')
       (\<lambda>_.
     bind (indexContent env jobId srtLines)
       (\<lambda>_.
     let batches = slices linesPerBatch 0 srtLines in
     bind (translate_batches env jobId tone translationBrief updateStage (length batches) 0 batches)
       (\<lambda>allTranslatedLines.
     bind (updateStage ''Cleaning up long-term memory...'')
       (\<lambda>_.
     bind (cleanupIndex jobId)
       (\<lambda>_. ret (toSrtString (srtParser env) allTranslatedLines)))))))"

section \<open>The job queue and its worker\<close>

text \<open>\<^verbatim>\<open>TranslationJobData\<close> of the queue module.\<close>

record TranslationJobData =
  d_jobId :: string
  d_subtitleContent :: string
  d_tone :: string
  d_thinkingMode :: bool
  d_userGlossary :: "UserGlossaryItem list"

text \<open>The closure \<^verbatim>\<open>updateStage\<close> of the worker: the stage goes to the job's progress and
  to the bus.\<close>

definition updateStage :: "string \<Rightarrow> string \<Rightarrow> unit prog" where
  "updateStage jobId stage =
     bind (perform (UpdateProgress stage)) (\<lambda>_. perform (Emit jobId (Progress stage)))"

text \<open>The processor that \<^verbatim>\<open>startWorker\<close> registers: one attempt at a job.\<close>

definition processJob :: "env \<Rightarrow> TranslationJobData \<Rightarrow> string prog" where
  "processJob env job =
     catch
       (bind (updateStage (d_jobId job) ''Generating blueprint...'')
          (\<lambda>_.
        bind (generateBlueprint env (d_subtitleContent job) (d_tone job) (d_userGlossary job)
                (updateStage (d_jobId job)))
          (\<lambda>blueprint.
        bind (lift (stringifyBlueprint blueprint))
          (\<lambda>translationBrief.
        bind (perform (Emit (d_jobId job) (BlueprintReady blueprint)))
          (\<lambda>_.
        bind (updateStage (d_jobId job) ''Executing translation...'')
          (\<lambda>_.
        bind (executeTranslation env (d_jobId job) (d_subtitleContent job) (d_tone job)
                translationBrief (updateStage (d_jobId job)))
          (\<lambda>finalTranslation.
        bind (perform (Emit (d_jobId job) (Completed finalTranslation)))
          (\<lambda>_. ret finalTranslation))))))))
       (\<lambda>error.
          bind (perform (Emit (d_jobId job) (Failed (message error)))) (\<lambda>_. throw error))"

text \<open>
  Modelled from the spec: the queue library (BullMQ) that runs the processor is not among
  the sources.  \<^verbatim>\<open>createTranslationJob\<close> adds every job with \<^verbatim>\<open>attempts: 2\<close>; on an error
  raised by the processor the queue counts the attempt and, while attempts remain, runs
  the processor on the job again after the backoff delay.  \<open>retry n p\<close> is a run with \<open>n\<close>
  retries left after the first attempt; delays are not modelled.
\<close>

definition job_attempts :: nat where
  "job_attempts = 2"

fun retry :: "nat \<Rightarrow> 'a prog \<Rightarrow> 'a prog" where
  "retry 0 p = p"
| "retry (Suc n) p = catch p (\<lambda>error. retry n p)"

definition runJob :: "env \<Rightarrow> TranslationJobData \<Rightarrow> string prog" where
  "runJob env job = retry (job_attempts - 1) (processJob env job)"

section \<open>Predicates on programs\<close>

text \<open>\<open>only_effects P m\<close>: from every world, \<open>m\<close> only appends effects that satisfy \<open>P\<close>
  to the trace.\<close>

definition only_effects :: "(effect \<Rightarrow> bool) \<Rightarrow> 'a prog \<Rightarrow> bool" where
  "only_effects P m = (\<forall>w. \<exists>es. trace (snd (m w)) = trace w @ es \<and> list_all P es)"

text \<open>A vector-index query is scoped to a job when its filter names that job; every other
  effect is not a query.\<close>

fun query_scoped :: "string \<Rightarrow> effect \<Rightarrow> bool" where
  "query_scoped jobId (Query q) = (q_filter_jobId q = jobId)"
| "query_scoped jobId e = True"

text \<open>\<open>keeps_index m\<close>: \<open>m\<close> leaves the contents of the vector index as they are.\<close>

definition keeps_index :: "'a prog \<Rightarrow> bool" where
  "keeps_index m = (\<forall>w. pinecone (snd (m w)) = pinecone w)"


text \<open>
  A block of the input with a translation in place of its text, its id and timestamps
  as the library read them: what a rendering that keeps ids and timestamps hands to the
  library's serialiser.
\<close>

definition translated_block :: "Line \<Rightarrow> string \<Rightarrow> SrtItem" where
  "translated_block b t =
     \<lparr> item_id = lid b, item_startTime = lstartTime b, item_endTime = lendTime b, item_text = t \<rparr>"
section \<open>Sample inputs\<close>

subsection \<open>Sample subtitle files\<close>


text \<open>The layout in which the library writes blocks of one-line texts: the id, the two
  timestamps around an arrow, the text and an empty line, each ended by a carriage
  return and a line feed.\<close>

definition crlf :: string where
  "crlf = [CHR 0x0D, CHR 0x0A]"

definition write_blocks :: "SrtItem list \<Rightarrow> string" where
  "write_blocks items =
     concat (map (\<lambda>b. item_id b @ crlf @ item_startTime b @ '' --> '' @ item_endTime b @ crlf @
                        item_text b @ crlf @ crlf) items)"





text \<open>
  Two lines of plain text: no subtitle block at all.  The library looks for blocks by
  their timestamp line; where it finds none it returns the empty array and throws
  nothing.
\<close>

definition plain_text :: string where
  "plain_text = ''a\<newline>b''"

definition plain_text_parser :: srt_parser where
  "plain_text_parser = \<lparr> fromSrt = (\<lambda>s. Inr []), toSrt = write_blocks \<rparr>"

text \<open>The two lines that the fallback branch would make of that text.\<close>

definition plain_text_fallback :: "SrtLine list" where
  "plain_text_fallback =
     [\<lparr> sequence = Seq 1, startTime = ''00:00:00,000'', endTime = ''00:00:00,000'',
        duration = Num 0, text' = ''a'' \<rparr>,
      \<lparr> sequence = Seq 2, startTime = ''00:00:00,000'', endTime = ''00:00:00,000'',
        duration = Num 0, text' = ''b'' \<rparr>]"

text \<open>
  A subtitle file of one block numbered \<open>2^53 + 1\<close>, which is no double, and the
  library's reading of it: the id is the digit string as written.
\<close>

definition long_id_srt :: string where
  "long_id_srt = ''9007199254740993\<newline>00:00:01,000 --> 00:00:02,000\<newline>Hello\<newline>''"

definition long_id_block :: Line where
  "long_id_block =
     \<lparr> lid = ''9007199254740993'', lstartTime = ''00:00:01,000'', lstartSeconds = Num 1,
       lendTime = ''00:00:02,000'', lendSeconds = Num 2, ltext = ''Hello'' \<rparr>"

definition long_id_parser :: srt_parser where
  "long_id_parser =
     \<lparr> fromSrt = (\<lambda>s. if s = long_id_srt then Inr [long_id_block] else Inr []),
       toSrt = write_blocks \<rparr>"

definition long_id_line :: SrtLine where
  "long_id_line =
     \<lparr> sequence = Seq 9007199254740992, startTime = ''00:00:01,000'', endTime = ''00:00:02,000'',
       duration = Num 0, text' = ''Hello'' \<rparr>"

definition long_id_output :: string where
  "long_id_output =
     ''9007199254740992'' @ crlf @ ''00:00:01,000 --> 00:00:02,000'' @ crlf @ ''salam'' @ crlf @ crlf"
subsection \<open>Sample collaborators and a sample job\<close>

text \<open>A library that reads every input as one block, one second long, and writes blocks
  in its layout.\<close>

definition one_block_parser :: srt_parser where
  "one_block_parser =
     \<lparr> fromSrt = (\<lambda>s. Inr [\<lparr> lid = ''1'', lstartTime = ''00:00:01,000'', lstartSeconds = Num 1,
                               lendTime = ''00:00:02,000'', lendSeconds = Num 2,
                               ltext = ''Hello'' \<rparr>]),
       toSrt = write_blocks \<rparr>"

definition sample_srt :: string where
  "sample_srt = ''1\<newline>00:00:01,000 --> 00:00:02,000\<newline>Hello\<newline>''"

definition sample_blueprint :: TranslationBlueprint where
  "sample_blueprint =
     \<lparr> summary = ''A greeting'', keyPoints = [''greeting''], characterProfiles = [],
       culturalNuances = None, glossary = Some [] \<rparr>"

text \<open>Collaborators that never fail: every generation call answers \<^verbatim>\<open>salam\<close>, every
  response parses to the sample blueprint, embeddings are one-dimensional, upserts
  succeed, and the index finds no match.\<close>

definition happy_env :: env where
  "happy_env =
     \<lparr> generateContent = (\<lambda>h modelName json prompt. Inr ''salam''),
       batchEmbedContents = (\<lambda>h texts. Inr (map (\<lambda>t. [0]) texts)),
       embedContent = (\<lambda>h t. Inr [0]),
       upsert = (\<lambda>h vs. None),
       query = (\<lambda>h q. Inr (Some [])),
       JSON_parse = (\<lambda>s. Inr (BlueprintJson sample_blueprint)),
       stringify_keywords = (\<lambda>ks. ''[]''),
       stringify_grounded = (\<lambda>gs. ''[]''),
       stringify_glossary = (\<lambda>us. ''[]''),
       srtParser = one_block_parser \<rparr>"

definition sample_job :: TranslationJobData where
  "sample_job =
     \<lparr> d_jobId = ''job-1'', d_subtitleContent = sample_srt, d_tone = ''Casual'',
       d_thinkingMode = False, d_userGlossary = [] \<rparr>"

definition empty_world :: world where
  "empty_world = \<lparr> trace = [], pinecone = Map.empty \<rparr>"

text \<open>The events emitted on the bus under a job id, and the terminal ones among them.\<close>

fun bus_events :: "string \<Rightarrow> effect list \<Rightarrow> event list" where
  "bus_events jobId [] = []"
| "bus_events jobId (Emit j ev # es) = (if j = jobId then ev # bus_events jobId es else bus_events jobId es)"
| "bus_events jobId (e # es) = bus_events jobId es"

fun terminal :: "event \<Rightarrow> bool" where
  "terminal (Completed r) = True"
| "terminal (Failed m) = True"
| "terminal ev = False"

text \<open>A generation service that is down until the job has failed once.\<close>

definition flaky_env :: env where
  "flaky_env =
     happy_env \<lparr> generateContent :=
       (\<lambda>h modelName json prompt.
          if list_ex terminal (bus_events ''job-1'' h) then Inr ''salam''
          else Inl (Upstream ''503 Service Unavailable'')) \<rparr>"

text \<open>The run of the sample job with collaborators that never fail: the line it parses,
  the vector it stores, the brief, the output, and the whole trace.\<close>

definition sample_line :: SrtLine where
  "sample_line =
     \<lparr> sequence = Seq 1, startTime = ''00:00:01,000'', endTime = ''00:00:02,000'',
       duration = Num 0, text' = ''Hello'' \<rparr>"

definition sample_vector :: Vector where
  "sample_vector = \<lparr> v_id = ''job-1-1'', v_values = [0], v_jobId = ''job-1'', v_text = ''Hello'' \<rparr>"

definition sample_brief :: string where
  \<open>sample_brief =
     ''**1. Plot & Theme Synthesis:**\<newline>- Summary: A greeting\<newline>- Key Themes: greeting\<newline>\<newline>'' @
     ''**2. Character Persona Profiles:**\<newline>'' @
     ''\<newline>**3. "World Anvil" Glossary (Sacrosanct):**\<newline>''\<close>

definition sample_output :: string where
  "sample_output = ''1'' @ crlf @ ''00:00:01,000 --> 00:00:02,000'' @ crlf @ ''salam'' @ crlf @ crlf"

definition stage_effects :: "string \<Rightarrow> effect list" where
  "stage_effects s = [UpdateProgress s, Emit ''job-1'' (Progress s)]"

definition attempt_trace :: "env \<Rightarrow> effect list" where
  "attempt_trace env =
     stage_effects ''Generating blueprint...'' @
     stage_effects ''Phase 1a: Extracting Keywords...'' @
     [GenerateContent flashModel True (getPhase1A_Prompt ''Hello'')] @
     stage_effects ''Phase 1b: Grounding Translations...'' @
     [GenerateContent flashModel True (getPhase1B_Prompt env [])] @
     stage_effects ''Phase 1c: Assembling Blueprint...'' @
     [GenerateContent proModel True (getPhase1C_Prompt env ''Hello'' ''Casual'' [] []),
      Emit ''job-1'' (BlueprintReady sample_blueprint)] @
     stage_effects ''Executing translation...'' @
     stage_effects ''Indexing script for long-term memory...'' @
     [BatchEmbedContents [''Hello''], Upsert [sample_vector]] @
     stage_effects ''Triage Agent classifying Batch 1 of 1'' @
     [GenerateContent flashModel True (getTriageAgentPrompt [sample_line])] @
     stage_effects ''Translating line 1 with FLASH model'' @
     [EmbedContent ''Hello'',
      Query \<lparr> q_vector = [0], q_topK = 5, q_filter_jobId = ''job-1'' \<rparr>,
      GenerateContent flashModel False
        (getStep2_Prompt sample_line ''No relevant context found.'' sample_brief ''Casual'')] @
     stage_effects ''Cleaning up long-term memory...'' @
     [ConsoleLog ''Cleanup for job job-1 would be performed here.'',
      Emit ''job-1'' (Completed sample_output)]"

text \<open>A batch of fifteen lines numbered 1 to 15, and a triage result that classifies every
  line but line 7 as \<^verbatim>\<open>pro\<close>.\<close>

definition numbered_line :: "nat \<Rightarrow> SrtLine" where
  "numbered_line n =
     \<lparr> sequence = Seq (int n), startTime = ''00:00:00,000'', endTime = ''00:00:01,000'',
       duration = Num 0, text' = ''Line'' \<rparr>"

definition batch_of_15 :: "SrtLine list" where
  "batch_of_15 = map numbered_line [1..<16]"

definition triage_without_7 :: "Classification list" where
  "triage_without_7 =
     map (\<lambda>n. \<lparr> c_id = Num (of_nat n), c_model = Some ''pro'' \<rparr>) (filter (\<lambda>n. n \<noteq> 7) [1..<16])"

text \<open>An assembly model that proposes its own translation for a term of the user's
  glossary.\<close>

definition stubborn_entry :: GlossaryTerm where
  "stubborn_entry =
     \<lparr> g_term = ''Hello'', g_definition = ''a greeting'', proposedTranslation = ''dorood'',
       translationType = DirectTranslation, justification = ''formal register'',
       alternatives = [''salam''] \<rparr>"

definition stubborn_blueprint :: TranslationBlueprint where
  "stubborn_blueprint = sample_blueprint \<lparr> glossary := Some [stubborn_entry] \<rparr>"

definition user_glossary :: "UserGlossaryItem list" where
  "user_glossary = [\<lparr> u_term = ''Hello'', u_translation = ''salam'' \<rparr>]"

definition stubborn_env :: env where
  \<open>stubborn_env =
     happy_env \<lparr> JSON_parse := (\<lambda>s. Inr (BlueprintJson stubborn_blueprint)),
                 stringify_glossary := (\<lambda>us. ''[{"term":"Hello","translation":"salam"}]'') \<rparr>\<close>

text \<open>An embedding service that is out of quota.\<close>

definition quota_env :: env where
  "quota_env =
     happy_env \<lparr> batchEmbedContents :=
       (\<lambda>h texts. Inl (Upstream ''429 Resource has been exhausted'')) \<rparr>"

text \<open>The trace of an attempt at the sample job that fails in the first generation call.\<close>

definition failed_attempt_trace :: "effect list" where
  "failed_attempt_trace =
     stage_effects ''Generating blueprint...'' @
     stage_effects ''Phase 1a: Extracting Keywords...'' @
     [GenerateContent flashModel True (getPhase1A_Prompt ''Hello''),
      ConsoleError ''Error running JSON tool with model gemini-2.5-flash:'',
      Emit ''job-1'' (Failed ''An internal AI error occurred while processing data.'')]"

section \<open>Properties of the subtitle parser\<close>

lemma split_nl_nonempty: "split_nl s \<noteq> []"
  by (induction s) (auto split: list.splits)

lemma length_split_nl: "length (split_nl s) = Suc (count_list s (CHR 0x0A))"
  by (induction s) (auto split: list.splits simp: split_nl_nonempty)

text \<open>\<open>split_nl\<close> is the split at newlines: joining the segments with a newline gives the
  input back, and no segment holds a newline.\<close>

lemma join_split_nl: "join [CHR 0x0A] (split_nl s) = s"
proof (induction s)
  case Nil
  show ?case by simp
next
  case (Cons c cs)
  obtain seg segs where sp: "split_nl cs = seg # segs"
    using split_nl_nonempty [of cs] by (cases "split_nl cs") auto
  show ?case
  proof (cases "c = CHR 0x0A")
    case True
    with Cons sp show ?thesis by simp
  next
    case False
    with Cons sp show ?thesis by (cases segs) auto
  qed
qed

lemma split_nl_no_newline: "seg \<in> set (split_nl s) \<Longrightarrow> CHR 0x0A \<notin> set seg"
  by (induction s arbitrary: seg) (auto split: list.splits if_splits)

text \<open>\<open>parseSrt\<close> always returns a list of lines and never an error: what the library
  throws is caught.\<close>

lemma parseSrt_total: "\<exists>ls. parseSrt parser content = Inr ls"
  by (simp add: parseSrt_def try_catch_def split: sum.splits)

text \<open>When the library returns blocks, there is one line per block.\<close>

lemma parseSrt_blocks:
  "fromSrt parser content = Inr srtArray \<Longrightarrow> parseSrt parser content = Inr (map parsed_line srtArray)"
  by (simp add: parseSrt_def try_catch_def)

text \<open>
  Only when the library throws does the fallback run.  Then the result has one line per
  newline-delimited segment of the input (one more than the number of newline
  characters); line \<open>i\<close> (counting from 0) has sequence \<open>i + 1\<close>, both timestamps
  \<^verbatim>\<open>00:00:00,000\<close>, duration 0, and the segment as its text.
\<close>

lemma parseSrt_thrown:
  assumes "fromSrt parser content = Inl e"
  shows "\<exists>ls. parseSrt parser content = Inr ls \<and>
            length ls = length (split_nl content) \<and>
            length ls = Suc (count_list content (CHR 0x0A)) \<and>
            (\<forall>i < length ls.
               sequence (ls ! i) = Seq (int i + 1) \<and>
               startTime (ls ! i) = ''00:00:00,000'' \<and>
               endTime (ls ! i) = ''00:00:00,000'' \<and>
               duration (ls ! i) = Num 0 \<and>
               text' (ls ! i) = split_nl content ! i)"
proof -
  let ?ls = "map fallback_line (enumerate 0 (split_nl content))"
  have res: "parseSrt parser content = Inr ?ls"
    using assms by (simp add: parseSrt_def try_catch_def)
  have len: "length ?ls = length (split_nl content)"
    by simp
  have each: "sequence (?ls ! i) = Seq (int i + 1) \<and>
              startTime (?ls ! i) = ''00:00:00,000'' \<and>
              endTime (?ls ! i) = ''00:00:00,000'' \<and>
              duration (?ls ! i) = Num 0 \<and>
              text' (?ls ! i) = split_nl content ! i" if "i < length ?ls" for i
    using that by (simp add: fallback_line_def nth_enumerate_eq)
  show ?thesis
    using res len each length_split_nl [of content] by (intro exI [of _ ?ls]) simp
qed

text \<open>A text in which the library finds no block and throws nothing parses to no line
  at all, whatever its segments are.\<close>

lemma parseSrt_no_block:
  "fromSrt parser content = Inr [] \<Longrightarrow> parseSrt parser content = Inr []"
  by (simp add: parseSrt_blocks)

text \<open>
  Claim C7 fails on the code.  \<open>parseSrt\<close> never raises, but on text that is no subtitle
  file the degraded result of the claim is not produced: for the two lines of
  \<open>plain_text\<close> the library returns no block and throws nothing, the \<^verbatim>\<open>catch\<close> branch
  does not run, and \<open>parseSrt\<close> returns the empty list, where the claim has the two
  fallback lines with sequence 1 and 2, zero timestamps and duration 0.
\<close>

theorem parseSrt_plain_text_empty:
  "fromSrt plain_text_parser plain_text = Inr [] \<and>
   parseSrt plain_text_parser plain_text = Inr [] \<and>
   map fallback_line (enumerate 0 (split_nl plain_text)) = plain_text_fallback \<and>
   length plain_text_fallback = 2"
  by (simp add: parseSrt_def try_catch_def plain_text_parser_def plain_text_def
      plain_text_fallback_def fallback_line_def)

text \<open>The difference that \<open>parsed_line\<close> forms is \<open>NaN\<close> for every block, since both
  operands are \<^verbatim>\<open>undefined\<close>; the duration stored is therefore 0.\<close>

lemma difference_parsed_line:
  "js_sub (prop_endTimeSeconds line) (prop_startTimeSeconds line) = NaN"
  by (simp add: js_sub_def prop_endTimeSeconds_def prop_startTimeSeconds_def toNumber_def)





section \<open>Laws of programs\<close>

lemma ret_apply: "ret v w = (Inr v, w)"
  by (simp add: ret_def)

lemma throw_apply: "throw e w = (Inl e, w)"
  by (simp add: throw_def)

lemma lift_apply: "lift r w = (r, w)"
  by (simp add: lift_def)

lemma bind_apply:
  "bind m f w = (case m w of (Inl e, w') \<Rightarrow> (Inl e, w') | (Inr v, w') \<Rightarrow> f v w')"
  by (simp add: bind_def)

lemma catch_apply:
  "catch m h w = (case m w of (Inl e, w') \<Rightarrow> h e w' | (Inr v, w') \<Rightarrow> (Inr v, w'))"
  by (simp add: catch_def)

lemma perform_apply: "perform e w = (Inr (), w\<lparr>trace := trace w @ [e]\<rparr>)"
  by (simp add: perform_def)

lemma call_apply: "call e answer w = (answer (trace w), w\<lparr>trace := trace w @ [e]\<rparr>)"
  by (simp add: call_def)

lemma upsert_call_apply:
  "upsert_call env vs w =
     (case upsert env (trace w) vs of
        Some e \<Rightarrow> (Inl e, w\<lparr>trace := trace w @ [Upsert vs]\<rparr>)
      | None \<Rightarrow> (Inr (), w\<lparr>trace := trace w @ [Upsert vs],
                             pinecone := store_vectors vs (pinecone w)\<rparr>))"
  by (simp add: upsert_call_def)

lemmas prog_apply =
  ret_apply throw_apply lift_apply bind_apply catch_apply perform_apply call_apply
  upsert_call_apply

lemma bind_Inr:
  assumes "bind m f w = (Inr v, w')"
  obtains x w1 where "m w = (Inr x, w1)" and "f x w1 = (Inr v, w')"
  using assms by (auto simp: bind_apply split: prod.splits sum.splits)

lemma bind_ret: "bind (ret v) f = f v"
  by (rule ext) (simp add: prog_apply)

lemma bind_throw: "bind (throw e) f = throw e"
  by (rule ext) (simp add: prog_apply)

lemma bind_assoc: "bind (bind m f) g = bind m (\<lambda>x. bind (f x) g)"
  by (rule ext) (simp add: prog_apply split: prod.splits sum.splits)

subsection \<open>Effects a program appends\<close>

lemma only_effectsI:
  assumes "\<And>w. \<exists>es. trace (snd (m w)) = trace w @ es \<and> list_all P es"
  shows "only_effects P m"
  using assms by (simp add: only_effects_def)

lemma only_effectsD:
  assumes "only_effects P m"
  obtains es where "trace (snd (m w)) = trace w @ es" and "list_all P es"
  using assms by (auto simp: only_effects_def)

lemma only_effects_ret: "only_effects P (ret v)"
  by (rule only_effectsI) (simp add: ret_apply)

lemma only_effects_throw: "only_effects P (throw e)"
  by (rule only_effectsI) (simp add: throw_apply)

lemma only_effects_lift: "only_effects P (lift r)"
  by (rule only_effectsI) (simp add: lift_apply)

lemma only_effects_perform: "P e \<Longrightarrow> only_effects P (perform e)"
  by (rule only_effectsI) (simp add: perform_apply)

lemma only_effects_call: "P e \<Longrightarrow> only_effects P (call e answer)"
  by (rule only_effectsI) (simp add: call_apply)

lemma only_effects_upsert_call: "P (Upsert vs) \<Longrightarrow> only_effects P (upsert_call env vs)"
  by (rule only_effectsI) (simp add: upsert_call_apply split: option.splits)

lemma only_effects_bind:
  assumes m: "only_effects P m" and f: "\<And>v. only_effects P (f v)"
  shows "only_effects P (bind m f)"
proof (rule only_effectsI)
  fix w
  obtain r w1 where mw: "m w = (r, w1)" by (cases "m w")
  from m obtain es where es: "trace (snd (m w)) = trace w @ es" "list_all P es"
    by (rule only_effectsD)
  show "\<exists>es. trace (snd (bind m f w)) = trace w @ es \<and> list_all P es"
  proof (cases r)
    case (Inl e)
    with mw es show ?thesis by (simp add: bind_apply)
  next
    case (Inr v)
    from f [of v] obtain es' where es': "trace (snd (f v w1)) = trace w1 @ es'" "list_all P es'"
      by (rule only_effectsD)
    from Inr mw es es' have "trace (snd (bind m f w)) = trace w @ (es @ es')"
      by (simp add: bind_apply)
    moreover from es es' have "list_all P (es @ es')" by simp
    ultimately show ?thesis by blast
  qed
qed

lemma only_effects_catch:
  assumes m: "only_effects P m" and h: "\<And>e. only_effects P (h e)"
  shows "only_effects P (catch m h)"
proof (rule only_effectsI)
  fix w
  obtain r w1 where mw: "m w = (r, w1)" by (cases "m w")
  from m obtain es where es: "trace (snd (m w)) = trace w @ es" "list_all P es"
    by (rule only_effectsD)
  show "\<exists>es. trace (snd (catch m h w)) = trace w @ es \<and> list_all P es"
  proof (cases r)
    case (Inr v)
    with mw es show ?thesis by (simp add: catch_apply)
  next
    case (Inl e)
    from h [of e] obtain es' where es': "trace (snd (h e w1)) = trace w1 @ es'" "list_all P es'"
      by (rule only_effectsD)
    from Inl mw es es' have "trace (snd (catch m h w)) = trace w @ (es @ es')"
      by (simp add: catch_apply)
    moreover from es es' have "list_all P (es @ es')" by simp
    ultimately show ?thesis by blast
  qed
qed

lemmas only_effects_intros =
  only_effects_ret only_effects_throw only_effects_lift only_effects_perform only_effects_call
  only_effects_upsert_call only_effects_bind only_effects_catch

section \<open>Evaluation of the sample inputs\<close>

lemma slices_single: "0 < n \<Longrightarrow> xs \<noteq> [] \<Longrightarrow> length xs \<le> n \<Longrightarrow> slices n 0 xs = [xs]"
  by (subst slices.simps) (simp add: slices.simps [of n n xs])

lemma digit_char_numerals:
  "digit_char 0 = CHR ''0''" "digit_char 1 = CHR ''1''" "digit_char 2 = CHR ''2''"
  "digit_char 3 = CHR ''3''" "digit_char 4 = CHR ''4''" "digit_char 5 = CHR ''5''"
  "digit_char 6 = CHR ''6''" "digit_char 7 = CHR ''7''" "digit_char 8 = CHR ''8''"
  "digit_char 9 = CHR ''9''"
  by code_simp+

lemma nat_digits_small: "n < 10 \<Longrightarrow> nat_digits n = [digit_char n]"
  by (subst nat_digits.simps) simp

lemma digit_char_Suc_0: "digit_char (Suc 0) = CHR ''1''"
  by code_simp

lemma toUpperCase_flash: "toUpperCase ''flash'' = ''FLASH''"
  by code_simp

lemma toUpperCase_pro: "toUpperCase ''pro'' = ''PRO''"
  by code_simp

lemma integer_to_string_small: "n < 10 \<Longrightarrow> integer_to_string n = [digit_char n]"
  by (simp add: integer_to_string_def nat_digits_small)

lemma parse_sample: "parseSrt one_block_parser s = Inr [sample_line]"
  by (simp add: parseSrt_def try_catch_def one_block_parser_def parsed_line_def difference_parsed_line
      isNaN_def parseInt10_def to_double_def is_ws_def is_digit_def digit_val_def trim_def
      sample_line_def)

lemma toSrt_one_block: "toSrt one_block_parser items = write_blocks items"
  by (simp add: one_block_parser_def)

lemmas service_defs =
  runJob_def job_attempts_def processJob_def updateStage_def generateBlueprint_def
  executeTranslation_def runJsonTool_def runTextGen_def indexContent_def queryContext_def
  triageBatch_def translate_line_def cleanupIndex_def stringifyBlueprint_def
  modelChoice_def modelToUse_def with_translation_def toSrtString_def srt_item_def
  query_request_def matched_texts_def no_context_def store_vectors_def linesPerBatch_def

lemmas sample_defs =
  sample_job_def empty_world_def sample_blueprint_def sample_line_def sample_vector_def
  sample_brief_def sample_output_def stage_effects_def attempt_trace_def

lemmas eval_simps =
  service_defs prog_apply Let_def slices_single parse_sample toSrt_one_block
  write_blocks_def crlf_def integer_to_string_small nat_digits_small digit_char_numerals
  digit_char_Suc_0 toUpperCase_flash toUpperCase_pro sample_defs

text \<open>The sample job with collaborators that never fail: one attempt, which completes.\<close>

lemma happy_run:
  "runJob happy_env sample_job empty_world =
     (Inr sample_output,
      \<lparr> trace = attempt_trace happy_env, pinecone = [''job-1-1'' \<mapsto> sample_vector] \<rparr>)"
  by (simp add: eval_simps happy_env_def)

section \<open>Every vector-index query is scoped to its job\<close>

lemma scoped_runJsonTool: "only_effects (query_scoped j) (runJsonTool env m p)"
  unfolding runJsonTool_def by (intro only_effects_intros) simp_all

lemma scoped_runTextGen: "only_effects (query_scoped j) (runTextGen env m p)"
  unfolding runTextGen_def by (intro only_effects_intros) simp_all

lemma scoped_queryContext: "only_effects (query_scoped jobId) (queryContext env jobId content topK)"
  unfolding queryContext_def by (intro only_effects_intros) (simp_all add: query_request_def)

lemma scoped_upsert_all: "only_effects (query_scoped j) (upsert_all env chunks)"
  by (induction chunks) (auto intro!: only_effects_intros)

lemma scoped_indexContent: "only_effects (query_scoped j) (indexContent env jobId lines)"
  unfolding indexContent_def by (intro only_effects_intros scoped_upsert_all) simp_all

lemma scoped_triageBatch: "only_effects (query_scoped j) (triageBatch env batch)"
  unfolding triageBatch_def by (intro only_effects_intros scoped_runJsonTool)

lemma scoped_cleanupIndex: "only_effects (query_scoped j) (cleanupIndex jobId)"
  unfolding cleanupIndex_def by (intro only_effects_intros) simp

lemma scoped_updateStage: "only_effects (query_scoped j) (updateStage jobId stage)"
  unfolding updateStage_def by (intro only_effects_intros) simp_all


lemma scoped_translate_line:
  assumes "\<And>s. only_effects (query_scoped jobId) (upd s)"
  shows "only_effects (query_scoped jobId) (translate_line env jobId tone brief upd triageResult line)"
  unfolding translate_line_def
  by (intro only_effects_bind assms scoped_queryContext scoped_runTextGen)

lemma scoped_translate_lines:
  assumes "\<And>s. only_effects (query_scoped jobId) (upd s)"
  shows "only_effects (query_scoped jobId) (translate_lines env jobId tone brief upd triageResult batch)"
proof (induction batch)
  case Nil
  show ?case by (simp add: only_effects_ret)
next
  case (Cons line rest)
  show ?case
    unfolding translate_lines.simps
    by (intro only_effects_bind only_effects_ret scoped_translate_line assms Cons.IH)
qed

lemma scoped_translate_batches:
  assumes "\<And>s. only_effects (query_scoped jobId) (upd s)"
  shows "only_effects (query_scoped jobId) (translate_batches env jobId tone brief upd n i batches)"
proof (induction batches arbitrary: i)
  case Nil
  show ?case by (simp add: only_effects_ret)
next
  case (Cons batch rest)
  show ?case
    unfolding translate_batches.simps
    by (intro only_effects_bind only_effects_ret scoped_translate_lines scoped_triageBatch assms
        Cons.IH)
qed

lemma scoped_executeTranslation:
  assumes "\<And>s. only_effects (query_scoped jobId) (upd s)"
  shows "only_effects (query_scoped jobId) (executeTranslation env jobId content tone brief upd)"
  unfolding executeTranslation_def Let_def
  by (intro only_effects_bind only_effects_ret only_effects_lift scoped_translate_batches
      scoped_indexContent scoped_cleanupIndex assms)

lemma only_effects_blueprint_check:
  "only_effects P (case (blueprint, gl) of
       (BlueprintJson b, Some entries) \<Rightarrow> ret b
     | _ \<Rightarrow> throw (Error ''AI failed to generate a valid blueprint.''))"
  by (cases blueprint; cases gl) (simp_all add: only_effects_ret only_effects_throw)

lemma scoped_generateBlueprint:
  assumes "\<And>s. only_effects (query_scoped j) (upd s)"
  shows "only_effects (query_scoped j) (generateBlueprint env content tone userGlossary upd)"
  unfolding generateBlueprint_def Let_def
  by (intro only_effects_bind only_effects_lift only_effects_blueprint_check scoped_runJsonTool assms)

lemma scoped_processJob: "only_effects (query_scoped (d_jobId job)) (processJob env job)"
  unfolding processJob_def
  by (intro only_effects_bind only_effects_catch only_effects_lift only_effects_ret
      only_effects_throw only_effects_perform scoped_generateBlueprint scoped_executeTranslation
      scoped_updateStage) simp_all

lemma only_effects_retry: "only_effects P p \<Longrightarrow> only_effects P (retry n p)"
  by (induction n) (simp_all add: only_effects_catch)

lemma scoped_runJob: "only_effects (query_scoped (d_jobId job)) (runJob env job)"
  unfolding runJob_def by (rule only_effects_retry) (rule scoped_processJob)

text \<open>
  Claim C9.  Every query a job run sends to the vector index carries the job's id as its
  filter (for the whole run of a job and for a single context query), and a context query
  whose embedding call succeeds and whose search yields no matches (a missing or an
  empty match list) returns the sentinel \<^verbatim>\<open>No relevant context found.\<close> and no error.
\<close>

theorem queryContext_scoped_sentinel:
  "only_effects (query_scoped (d_jobId job)) (runJob env job) \<and>
   only_effects (query_scoped jobId) (queryContext env jobId content topK) \<and>
   (\<forall>v. embedContent env (trace w) content = Inr v \<and>
        (query env (trace w @ [EmbedContent content]) (query_request jobId v topK) = Inr None \<or>
         query env (trace w @ [EmbedContent content]) (query_request jobId v topK) = Inr (Some []))
      \<longrightarrow> fst (queryContext env jobId content topK w) = Inr no_context)"
proof (intro conjI allI impI)
  show "only_effects (query_scoped (d_jobId job)) (runJob env job)"
    by (rule scoped_runJob)
  show "only_effects (query_scoped jobId) (queryContext env jobId content topK)"
    by (rule scoped_queryContext)
next
  fix v
  assume "embedContent env (trace w) content = Inr v \<and>
        (query env (trace w @ [EmbedContent content]) (query_request jobId v topK) = Inr None \<or>
         query env (trace w @ [EmbedContent content]) (query_request jobId v topK) = Inr (Some []))"
  then show "fst (queryContext env jobId content topK w) = Inr no_context"
    by (auto simp: queryContext_def prog_apply matched_texts_def)
qed

theorem queryContext_scoped_sentinel_witness:
  "fst (queryContext happy_env ''never-indexed'' ''Hello'' 5 empty_world) =
     Inr ''No relevant context found.'' \<and>
   Query \<lparr> q_vector = [0], q_topK = 5, q_filter_jobId = ''job-1'' \<rparr>
     \<in> set (trace (snd (runJob happy_env sample_job empty_world))) \<and>
   list_all (query_scoped ''job-1'') (trace (snd (runJob happy_env sample_job empty_world)))"
proof -
  note inst = queryContext_scoped_sentinel
    [of sample_job happy_env "''never-indexed''" "''Hello''" 5 empty_world]
  have "embedContent happy_env (trace empty_world) ''Hello'' = Inr [0] \<and>
      (query happy_env (trace empty_world @ [EmbedContent ''Hello''])
         (query_request ''never-indexed'' [0] 5) = Inr None \<or>
       query happy_env (trace empty_world @ [EmbedContent ''Hello''])
         (query_request ''never-indexed'' [0] 5) = Inr (Some []))"
    by (simp add: happy_env_def)
  with inst have sentinel:
    "fst (queryContext happy_env ''never-indexed'' ''Hello'' 5 empty_world) = Inr no_context"
    by blast
  from inst have "only_effects (query_scoped (d_jobId sample_job)) (runJob happy_env sample_job)"
    by blast
  then obtain es where
    es: "trace (snd (runJob happy_env sample_job empty_world)) = trace empty_world @ es"
      "list_all (query_scoped (d_jobId sample_job)) es"
    by (rule only_effectsD)
  then have scoped:
    "list_all (query_scoped ''job-1'') (trace (snd (runJob happy_env sample_job empty_world)))"
    by (simp add: empty_world_def sample_job_def)
  have "Query \<lparr> q_vector = [0], q_topK = 5, q_filter_jobId = ''job-1'' \<rparr>
     \<in> set (trace (snd (runJob happy_env sample_job empty_world)))"
    by (simp add: happy_run attempt_trace_def)
  with sentinel scoped show ?thesis
    by (simp add: no_context_def)
qed

section \<open>Indexing and cleanup\<close>

subsection \<open>Programs that leave the index alone\<close>

lemma keeps_indexI: "(\<And>w. pinecone (snd (m w)) = pinecone w) \<Longrightarrow> keeps_index m"
  by (simp add: keeps_index_def)

lemma keeps_indexD: "keeps_index m \<Longrightarrow> pinecone (snd (m w)) = pinecone w"
  by (simp add: keeps_index_def)

lemma keeps_index_ret: "keeps_index (ret v)"
  by (rule keeps_indexI) (simp add: ret_apply)

lemma keeps_index_throw: "keeps_index (throw e)"
  by (rule keeps_indexI) (simp add: throw_apply)

lemma keeps_index_lift: "keeps_index (lift r)"
  by (rule keeps_indexI) (simp add: lift_apply)

lemma keeps_index_perform: "keeps_index (perform e)"
  by (rule keeps_indexI) (simp add: perform_apply)

lemma keeps_index_call: "keeps_index (call e answer)"
  by (rule keeps_indexI) (simp add: call_apply)

lemma keeps_index_bind:
  assumes m: "keeps_index m" and f: "\<And>v. keeps_index (f v)"
  shows "keeps_index (bind m f)"
proof (rule keeps_indexI)
  fix w
  obtain r w1 where mw: "m w = (r, w1)" by (cases "m w")
  with m have w1: "pinecone w1 = pinecone w"
    using keeps_indexD [of m w] by simp
  show "pinecone (snd (bind m f w)) = pinecone w"
  proof (cases r)
    case (Inl e)
    with mw w1 show ?thesis by (simp add: bind_apply)
  next
    case (Inr v)
    with mw w1 show ?thesis
      using keeps_indexD [OF f, of v w1] by (simp add: bind_apply)
  qed
qed

lemma keeps_index_catch:
  assumes m: "keeps_index m" and h: "\<And>e. keeps_index (h e)"
  shows "keeps_index (catch m h)"
proof (rule keeps_indexI)
  fix w
  obtain r w1 where mw: "m w = (r, w1)" by (cases "m w")
  with m have w1: "pinecone w1 = pinecone w"
    using keeps_indexD [of m w] by simp
  show "pinecone (snd (catch m h w)) = pinecone w"
  proof (cases r)
    case (Inr v)
    with mw w1 show ?thesis by (simp add: catch_apply)
  next
    case (Inl e)
    with mw w1 show ?thesis
      using keeps_indexD [OF h, of e w1] by (simp add: catch_apply)
  qed
qed

lemmas keeps_index_intros =
  keeps_index_ret keeps_index_throw keeps_index_lift keeps_index_perform keeps_index_call
  keeps_index_bind keeps_index_catch

lemma keeps_index_runJsonTool: "keeps_index (runJsonTool env m p)"
  unfolding runJsonTool_def by (intro keeps_index_intros)

lemma keeps_index_runTextGen: "keeps_index (runTextGen env m p)"
  unfolding runTextGen_def by (intro keeps_index_intros)

lemma keeps_index_queryContext: "keeps_index (queryContext env jobId content topK)"
  unfolding queryContext_def by (intro keeps_index_intros)

lemma keeps_index_triageBatch: "keeps_index (triageBatch env batch)"
  unfolding triageBatch_def by (intro keeps_index_intros keeps_index_runJsonTool)

lemma keeps_index_cleanupIndex: "keeps_index (cleanupIndex jobId)"
  unfolding cleanupIndex_def by (rule keeps_index_perform)

lemma keeps_index_updateStage: "keeps_index (updateStage jobId s)"
  unfolding updateStage_def by (intro keeps_index_intros)

lemma keeps_index_translate_line:
  assumes "\<And>s. keeps_index (upd s)"
  shows "keeps_index (translate_line env jobId tone brief upd triageResult line)"
  unfolding translate_line_def
  by (intro keeps_index_bind assms keeps_index_queryContext keeps_index_runTextGen)

lemma keeps_index_translate_lines:
  assumes "\<And>s. keeps_index (upd s)"
  shows "keeps_index (translate_lines env jobId tone brief upd triageResult batch)"
proof (induction batch)
  case Nil
  show ?case by (simp add: keeps_index_ret)
next
  case (Cons line rest)
  show ?case
    unfolding translate_lines.simps
    by (intro keeps_index_bind keeps_index_ret keeps_index_translate_line assms Cons.IH)
qed

lemma keeps_index_translate_batches:
  assumes "\<And>s. keeps_index (upd s)"
  shows "keeps_index (translate_batches env jobId tone brief upd n i batches)"
proof (induction batches arbitrary: i)
  case Nil
  show ?case by (simp add: keeps_index_ret)
next
  case (Cons batch rest)
  show ?case
    unfolding translate_batches.simps
    by (intro keeps_index_bind keeps_index_ret keeps_index_translate_lines
        keeps_index_triageBatch assms Cons.IH)
qed

subsection \<open>What indexing stores\<close>

lemma slices_drop: "0 < n \<Longrightarrow> concat (slices n i xs) = drop i xs"
proof (induction n i xs rule: slices.induct)
  case (1 n i xs)
  show ?case
  proof (cases "i < length xs")
    case True
    with 1 have "concat (slices n i xs) = take n (drop i xs) @ drop (i + n) xs"
      by (subst slices.simps) simp
    also have "\<dots> = drop i xs"
      by (metis add.commute append_take_drop_id drop_drop)
    finally show ?thesis .
  next
    case False
    then show ?thesis by (subst slices.simps) simp
  qed
qed

lemma concat_slices: "0 < n \<Longrightarrow> concat (slices n 0 xs) = xs"
  by (simp add: slices_drop)

lemma store_vectors_append:
  "store_vectors (xs @ ys) index = store_vectors ys (store_vectors xs index)"
  by (simp add: store_vectors_def)

lemma upsert_all_stores:
  "upsert_all env chunks w = (Inr u, w') \<Longrightarrow>
     pinecone w' = store_vectors (concat chunks) (pinecone w)"
proof (induction chunks arbitrary: w)
  case Nil
  then show ?case by (simp add: ret_apply store_vectors_def)
next
  case (Cons chunk chunks)
  from Cons.prems obtain x w1 where
    first: "upsert_call env chunk w = (Inr x, w1)" and
    others: "upsert_all env chunks w1 = (Inr u, w')"
    by (auto elim: bind_Inr)
  from first have "pinecone w1 = store_vectors chunk (pinecone w)"
    by (auto simp: upsert_call_apply split: option.splits)
  with Cons.IH [OF others] show ?case
    by (simp add: store_vectors_append)
qed

lemma indexContent_stores:
  assumes "indexContent env jobId lines w = (Inr u, w')"
  shows "\<exists>embeddings vectors.
     batchEmbedContents env (trace w) (map text' lines) = Inr embeddings \<and>
     build_vectors jobId lines embeddings = Inr vectors \<and>
     pinecone w' = store_vectors vectors (pinecone w)"
proof -
  from assms obtain embeddings w1 where
    emb: "call (BatchEmbedContents (map text' lines))
            (\<lambda>h. batchEmbedContents env h (map text' lines)) w = (Inr embeddings, w1)" and
    rest: "bind (lift (build_vectors jobId lines embeddings))
             (\<lambda>vectors. upsert_all env (slices 100 0 vectors)) w1 = (Inr u, w')"
    unfolding indexContent_def by (rule bind_Inr)
  from rest obtain vectors w2 where
    vec: "lift (build_vectors jobId lines embeddings) w1 = (Inr vectors, w2)" and
    ups: "upsert_all env (slices 100 0 vectors) w2 = (Inr u, w')"
    by (rule bind_Inr)
  from emb have e: "batchEmbedContents env (trace w) (map text' lines) = Inr embeddings"
    and w1: "pinecone w1 = pinecone w"
    by (auto simp: call_apply)
  from vec have v: "build_vectors jobId lines embeddings = Inr vectors" and "w2 = w1"
    by (auto simp: lift_apply)
  with upsert_all_stores [OF ups] w1
  have "pinecone w' = store_vectors vectors (pinecone w)"
    by (simp add: concat_slices)
  with e v show ?thesis by blast
qed

text \<open>
  Claim C10, as the code has it.  The cleanup step only writes a log line: it returns
  without error and leaves the world otherwise as it was.  Hence, when
  \<^verbatim>\<open>executeTranslation\<close> returns (with a stage callback that does not touch the index), the
  index holds what it held before plus every vector built for the job's lines: nothing
  of the job's namespace has been deleted.  The log line of the cleanup step is the last
  effect of the run.
\<close>

theorem cleanup_only_logs:
  "cleanupIndex jobId w =
     (Inr (), w\<lparr>trace := trace w @
        [ConsoleLog (''Cleanup for job '' @ jobId @ '' would be performed here.'')]\<rparr>) \<and>
   (\<forall>content tone brief upd out w'.
      (\<forall>s. keeps_index (upd s)) \<and>
      executeTranslation env jobId content tone brief upd w = (Inr out, w') \<longrightarrow>
      (\<exists>lines embeddings vectors.
         parseSrt (srtParser env) content = Inr lines \<and>
         build_vectors jobId lines embeddings = Inr vectors \<and>
         pinecone w' = store_vectors vectors (pinecone w)) \<and>
      (\<exists>earlier. trace w' = earlier @
         [ConsoleLog (''Cleanup for job '' @ jobId @ '' would be performed here.'')]))"
proof (intro conjI allI impI)
  show "cleanupIndex jobId w =
     (Inr (), w\<lparr>trace := trace w @
        [ConsoleLog (''Cleanup for job '' @ jobId @ '' would be performed here.'')]\<rparr>)"
    by (simp add: cleanupIndex_def perform_apply)
next
  fix content tone brief upd out w'
  assume a: "(\<forall>s. keeps_index (upd s)) \<and>
      executeTranslation env jobId content tone brief upd w = (Inr out, w')"
  then have upd: "\<And>s. keeps_index (upd s)" by blast
  define finish where "finish = (\<lambda>lines.
     let batches = slices linesPerBatch 0 lines in
     bind (translate_batches env jobId tone brief upd (length batches) 0 batches)
       (\<lambda>allTranslatedLines.
     bind (upd ''Cleaning up long-term memory...'')
       (\<lambda>_.
     bind (cleanupIndex jobId)
       (\<lambda>_. ret (toSrtString (srtParser env) allTranslatedLines)))))"
  have finish: "keeps_index (finish lines)" for lines
    unfolding finish_def Let_def
    by (intro keeps_index_bind keeps_index_ret keeps_index_translate_batches
        keeps_index_cleanupIndex upd)
  have "executeTranslation env jobId content tone brief upd =
     bind (lift (parseSrt (srtParser env) content))
       (\<lambda>srtLines.
     bind (upd ''Indexing script for long-term memory...'')
       (\<lambda>_.
     bind (indexContent env jobId srtLines)
       (\<lambda>_. finish srtLines)))"
    by (simp add: executeTranslation_def finish_def)
  with a have run: "bind (lift (parseSrt (srtParser env) content))
       (\<lambda>srtLines.
     bind (upd ''Indexing script for long-term memory...'')
       (\<lambda>_.
     bind (indexContent env jobId srtLines)
       (\<lambda>_. finish srtLines))) w = (Inr out, w')"
    by simp
  from run obtain lines w1 where
    parsed: "lift (parseSrt (srtParser env) content) w = (Inr lines, w1)" and
    r1: "bind (upd ''Indexing script for long-term memory...'')
           (\<lambda>_. bind (indexContent env jobId lines) (\<lambda>_. finish lines)) w1 = (Inr out, w')"
    by (rule bind_Inr)
  from parsed have lines: "parseSrt (srtParser env) content = Inr lines" and "w1 = w"
    by (auto simp: lift_apply)
  from r1 obtain u2 w2 where
    s2: "upd ''Indexing script for long-term memory...'' w1 = (Inr u2, w2)" and
    r2: "bind (indexContent env jobId lines) (\<lambda>_. finish lines) w2 = (Inr out, w')"
    by (rule bind_Inr)
  from r2 obtain u3 w3 where
    s3: "indexContent env jobId lines w2 = (Inr u3, w3)" and
    r3: "finish lines w3 = (Inr out, w')"
    by (rule bind_Inr)
  from keeps_indexD [OF finish, of lines w3] r3 have w3: "pinecone w' = pinecone w3"
    by simp
  from keeps_indexD [OF upd, of "''Indexing script for long-term memory...''" w1] s2 \<open>w1 = w\<close>
  have w2: "pinecone w2 = pinecone w" by simp
  from indexContent_stores [OF s3] obtain embeddings vectors where
    "build_vectors jobId lines embeddings = Inr vectors"
    "pinecone w3 = store_vectors vectors (pinecone w2)"
    by blast
  with w3 w2 lines have stored: "\<exists>lines embeddings vectors.
         parseSrt (srtParser env) content = Inr lines \<and>
         build_vectors jobId lines embeddings = Inr vectors \<and>
         pinecone w' = store_vectors vectors (pinecone w)"
    by auto
  from r3 have "bind (translate_batches env jobId tone brief upd
                  (length (slices linesPerBatch 0 lines)) 0 (slices linesPerBatch 0 lines))
       (\<lambda>allTranslatedLines.
     bind (upd ''Cleaning up long-term memory...'')
       (\<lambda>_.
     bind (cleanupIndex jobId)
       (\<lambda>_. ret (toSrtString (srtParser env) allTranslatedLines)))) w3 = (Inr out, w')"
    by (simp add: finish_def Let_def)
  then obtain allTranslatedLines w4 where
    "bind (upd ''Cleaning up long-term memory...'')
       (\<lambda>_.
     bind (cleanupIndex jobId)
       (\<lambda>_. ret (toSrtString (srtParser env) allTranslatedLines))) w4 = (Inr out, w')"
    by (rule bind_Inr) blast
  then obtain u5 w5 where
    "bind (cleanupIndex jobId)
       (\<lambda>_. ret (toSrtString (srtParser env) allTranslatedLines)) w5 = (Inr out, w')"
    by (rule bind_Inr) blast
  then have "trace w' = trace w5 @
         [ConsoleLog (''Cleanup for job '' @ jobId @ '' would be performed here.'')]"
    by (auto simp: bind_apply cleanupIndex_def perform_apply ret_apply)
  then show "\<exists>earlier. trace w' = earlier @
         [ConsoleLog (''Cleanup for job '' @ jobId @ '' would be performed here.'')]"
    by blast
  from stored show "\<exists>lines embeddings vectors.
         parseSrt (srtParser env) content = Inr lines \<and>
         build_vectors jobId lines embeddings = Inr vectors \<and>
         pinecone w' = store_vectors vectors (pinecone w)" .
qed

lemma happy_execute:
  "\<exists>tr. executeTranslation happy_env ''job-1'' sample_srt ''Casual'' sample_brief
         (updateStage ''job-1'') empty_world =
       (Inr sample_output, \<lparr> trace = tr, pinecone = [''job-1-1'' \<mapsto> sample_vector] \<rparr>)"
  by (simp add: eval_simps happy_env_def)

theorem cleanup_only_logs_witness:
  "cleanupIndex ''job-1'' empty_world =
     (Inr (), \<lparr> trace = [ConsoleLog ''Cleanup for job job-1 would be performed here.''],
               pinecone = Map.empty \<rparr>) \<and>
   (\<exists>lines embeddings vectors.
      parseSrt (srtParser happy_env) sample_srt = Inr lines \<and>
      build_vectors ''job-1'' lines embeddings = Inr vectors \<and>
      [''job-1-1'' \<mapsto> sample_vector] = store_vectors vectors Map.empty)"
proof -
  note inst = cleanup_only_logs [of "''job-1''" empty_world happy_env]
  from happy_execute obtain tr where
    run: "executeTranslation happy_env ''job-1'' sample_srt ''Casual'' sample_brief
         (updateStage ''job-1'') empty_world =
       (Inr sample_output, \<lparr> trace = tr, pinecone = [''job-1-1'' \<mapsto> sample_vector] \<rparr>)"
    by blast
  have keeps: "\<forall>s. keeps_index (updateStage ''job-1'' s)"
    by (simp add: keeps_index_updateStage)
  from inst [THEN conjunct2, rule_format, OF conjI, OF keeps run]
  have stored: "\<exists>lines embeddings vectors.
      parseSrt (srtParser happy_env) sample_srt = Inr lines \<and>
      build_vectors ''job-1'' lines embeddings = Inr vectors \<and>
      pinecone \<lparr> trace = tr, pinecone = [''job-1-1'' \<mapsto> sample_vector] \<rparr> =
        store_vectors vectors (pinecone empty_world)"
    by blast
  from inst [THEN conjunct1]
  have "cleanupIndex ''job-1'' empty_world =
     (Inr (), empty_world\<lparr>trace := trace empty_world @
        [ConsoleLog (''Cleanup for job '' @ ''job-1'' @ '' would be performed here.'')]\<rparr>)" .
  with stored show ?thesis
    by (simp add: empty_world_def)
qed

text \<open>
  Claim C10 as stated fails: the sample job completes, the cleanup step has run, and the
  vector stored for the job's line is still in the index.
\<close>

theorem cleanup_leaves_vectors:
  "fst (runJob happy_env sample_job empty_world) = Inr sample_output \<and>
   pinecone (snd (runJob happy_env sample_job empty_world)) ''job-1-1'' =
     Some \<lparr> v_id = ''job-1-1'', v_values = [0], v_jobId = ''job-1'', v_text = ''Hello'' \<rparr> \<and>
   ConsoleLog ''Cleanup for job job-1 would be performed here.''
     \<in> set (trace (snd (runJob happy_env sample_job empty_world)))"
  by (simp add: happy_run sample_vector_def attempt_trace_def)

section \<open>Triage\<close>

text \<open>
  Claim C5.  When the triage result has no entry whose id equals the line's sequence
  number, the model choice is \<^verbatim>\<open>flash\<close>, the model used is the fast one, and the line's
  translation step is: announce the line with the FLASH label, query the context, and
  generate with the fast model.  The witness is a batch of 15 lines whose triage result
  omits line 7.
\<close>

theorem triage_default_fast:
  assumes "\<forall>t \<in> set triageResult. \<not> strict_eq (c_id t) (sequence line)"
  shows "modelChoice triageResult line = ''flash'' \<and>
     modelToUse (modelChoice triageResult line) = flashModel \<and>
     translate_line env jobId tone brief upd triageResult line =
       bind (upd (''Translating line '' @ numToString (sequence line) @ '' with FLASH model''))
         (\<lambda>_. bind (queryContext env jobId (text' line) 5)
         (\<lambda>longTermContext.
            runTextGen env flashModel (getStep2_Prompt line longTermContext brief tone)))"
proof -
  from assms have "find (\<lambda>t. strict_eq (c_id t) (sequence line)) triageResult = None"
    by (simp add: find_None_iff)
  then have choice: "modelChoice triageResult line = ''flash''"
    by (simp add: modelChoice_def)
  then show ?thesis
    by (simp add: translate_line_def modelToUse_def toUpperCase_flash)
qed

theorem triage_default_fast_witness:
  "length batch_of_15 = 15 \<and> sequence (batch_of_15 ! 6) = Seq 7 \<and>
   modelToUse (modelChoice triage_without_7 (batch_of_15 ! 6)) = flashModel \<and>
   modelToUse (modelChoice triage_without_7 (batch_of_15 ! 5)) = proModel"
proof -
  have "list_all (\<lambda>t. \<not> strict_eq (c_id t) (sequence (batch_of_15 ! 6))) triage_without_7"
    by code_simp
  then have "\<forall>t \<in> set triage_without_7. \<not> strict_eq (c_id t) (sequence (batch_of_15 ! 6))"
    by (simp add: list_all_iff)
  from triage_default_fast [OF this]
  have "modelToUse (modelChoice triage_without_7 (batch_of_15 ! 6)) = flashModel"
    by blast
  moreover have "modelToUse (modelChoice triage_without_7 (batch_of_15 ! 5)) = proModel"
    by code_simp
  moreover have "length batch_of_15 = 15" and "sequence (batch_of_15 ! 6) = Seq 7"
    by code_simp+
  ultimately show ?thesis by simp
qed

lemma last_nat_digits: "last (nat_digits n) = digit_char (n mod 10)"
  by (subst nat_digits.simps) simp

lemma nat_digits_nonempty: "nat_digits n \<noteq> []"
  by (subst nat_digits.simps) simp

lemma of_char_digit_char: "d < 10 \<Longrightarrow> of_char (digit_char d) = 48 + d"
  by (simp add: digit_char_def)

lemma last_nat_digits_not_d: "last (nat_digits k) \<noteq> CHR ''d''"
proof
  assume "last (nat_digits k) = CHR ''d''"
  then have "of_char (digit_char (k mod 10)) = (100 :: nat)"
    by (simp add: last_nat_digits)
  moreover have "k mod 10 < 10" by simp
  ultimately show False
    using of_char_digit_char [of "k mod 10"] by simp
qed

lemma last_zeros_not_d: "last (nat_digits s @ replicate j (CHR ''0'')) \<noteq> CHR ''d''"
  by (cases j) (simp_all add: last_nat_digits_not_d)

lemma last_exponent_not_d: "last (pre @ ''e+'' @ nat_digits m) \<noteq> CHR ''d''"
  by (simp add: nat_digits_nonempty last_nat_digits_not_d)

lemma last_integer_to_string_not_d: "last (integer_to_string x) \<noteq> CHR ''d''"
proof (cases "x < 2 ^ 53")
  case True
  then show ?thesis
    by (simp add: integer_to_string_def last_nat_digits_not_d)
next
  case False
  obtain s k n where sd: "shortest_digits x [1 ..< 18] = (s, k, n)"
    by (cases "shortest_digits x [1 ..< 18]") auto
  have long: "last (hd (nat_digits s) # CHR ''.'' # tl (nat_digits s) @ ''e+'' @ nat_digits (n - 1))
      \<noteq> CHR ''d''"
    using last_exponent_not_d [of "hd (nat_digits s) # CHR ''.'' # tl (nat_digits s)" "n - 1"]
    by simp
  from False sd show ?thesis
    using last_zeros_not_d [of s "n - k"] last_exponent_not_d [of "nat_digits s" "n - 1"] long
    by (simp add: integer_to_string_def del: upt_Suc)
qed

lemma integer_to_string_nonempty: "integer_to_string x \<noteq> []"
proof (cases "x < 2 ^ 53")
  case True
  then show ?thesis
    by (simp add: integer_to_string_def nat_digits_nonempty)
next
  case False
  obtain s k n where sd: "shortest_digits x [1 ..< 18] = (s, k, n)"
    by (cases "shortest_digits x [1 ..< 18]") auto
  from False sd show ?thesis
    by (simp add: integer_to_string_def nat_digits_nonempty del: upt_Suc)
qed

lemma numToString_not_undefined: "numToString n \<noteq> ''undefined''"
proof
  assume eq: "numToString n = ''undefined''"
  show False
  proof (cases n)
    case SeqNaN
    with eq show False by simp
  next
    case SeqInfinity
    with eq show False by simp
  next
    case SeqNegInfinity
    with eq show False by simp
  next
    case (Seq i)
    with eq have "last (numToString (Seq i)) = CHR ''d''" by simp
    then show False
      using last_integer_to_string_not_d [of "nat i"] last_integer_to_string_not_d [of "nat (- i)"]
      by (simp add: integer_to_string_nonempty split: if_splits)
  qed
qed

text \<open>
  Claim C6.  The triage prompt labels every line with the word \<^verbatim>\<open>undefined\<close>, which is
  never the decimal form of the line's sequence number; the prompt depends on the texts
  of the batch only, so two batches with the same texts and different sequence numbers
  get the same prompt.
\<close>

theorem triage_prompt_label:
  "triage_row l = ''undefined | '' @ text' l \<and>
   template_number (prop_id l) \<noteq> numToString (sequence l) \<and>
   (map text' batch = map text' batch' \<longrightarrow>
      getTriageAgentPrompt batch = getTriageAgentPrompt batch')"
proof -
  have row: "triage_row x = ''undefined | '' @ text' x" for x
    by (simp add: triage_row_def template_number_def prop_id_def)
  have rows: "map triage_row b = map (\<lambda>t. ''undefined | '' @ t) (map text' b)" for b
    by (simp add: row)
  have label: "template_number (prop_id l) \<noteq> numToString (sequence l)"
    using numToString_not_undefined [of "sequence l"]
    by (simp add: template_number_def prop_id_def)
  have "getTriageAgentPrompt batch = getTriageAgentPrompt batch'"
    if "map text' batch = map text' batch'"
  proof -
    from that have "map triage_row batch = map triage_row batch'"
      by (simp only: rows)
    then show ?thesis
      by (simp only: getTriageAgentPrompt_def)
  qed
  with row label show ?thesis by blast
qed

theorem triage_prompt_label_witness:
  "getTriageAgentPrompt [numbered_line 1, numbered_line 2] =
   getTriageAgentPrompt [numbered_line 8, numbered_line 9] \<and>
   map triage_row [numbered_line 1, numbered_line 2] = [''undefined | Line'', ''undefined | Line'']"
proof -
  have "map text' [numbered_line 1, numbered_line 2] = map text' [numbered_line 8, numbered_line 9]"
    by (simp add: numbered_line_def)
  with triage_prompt_label [of "numbered_line 1" "[numbered_line 1, numbered_line 2]"
      "[numbered_line 8, numbered_line 9]"]
  have "getTriageAgentPrompt [numbered_line 1, numbered_line 2] =
        getTriageAgentPrompt [numbered_line 8, numbered_line 9]"
    by blast
  then show ?thesis
    by (simp add: triage_row_def template_number_def prop_id_def numbered_line_def)
qed

section \<open>Rendering what was parsed\<close>

subsection \<open>Sequence numbers survive printing and reading\<close>

lemma is_digit_digit_char: "d < 10 \<Longrightarrow> is_digit (digit_char d)"
  by (simp add: is_digit_def of_char_digit_char)

lemma digit_val_digit_char: "d < 10 \<Longrightarrow> digit_val (digit_char d) = d"
  by (simp add: digit_val_def of_char_digit_char)

lemma nat_digits_all_digits: "c \<in> set (nat_digits n) \<Longrightarrow> is_digit c"
proof (induction n arbitrary: c rule: nat_digits.induct)
  case (1 n)
  show ?case
  proof (cases "n < 10")
    case True
    with "1.prems" show ?thesis
      by (simp add: nat_digits_small is_digit_digit_char)
  next
    case False
    with "1.prems" have "c \<in> set (nat_digits (n div 10)) \<or> c = digit_char (n mod 10)"
      by (subst (asm) nat_digits.simps) auto
    with False "1.IH" show ?thesis
      by (auto simp: is_digit_digit_char)
  qed
qed

lemma digits_val_append: "digits_val acc (xs @ [c]) = 10 * digits_val acc xs + digit_val c"
  by (induction xs arbitrary: acc) simp_all

lemma digits_val_nat_digits: "digits_val 0 (nat_digits n) = n"
proof (induction n rule: nat_digits.induct)
  case (1 n)
  show ?case
  proof (cases "n < 10")
    case True
    then show ?thesis
      by (simp add: nat_digits_small digit_val_digit_char)
  next
    case False
    then have "nat_digits n = nat_digits (n div 10) @ [digit_char (n mod 10)]"
      by (subst nat_digits.simps) simp
    with False "1.IH" show ?thesis
      by (simp add: digits_val_append digit_val_digit_char)
  qed
qed

lemma is_digit_not_ws: "is_digit c \<Longrightarrow> \<not> is_ws c"
  by (auto simp: is_digit_def is_ws_def)

lemma is_digit_not_sign: "is_digit c \<Longrightarrow> c \<noteq> CHR ''-'' \<and> c \<noteq> CHR ''+''"
  by (auto simp: is_digit_def)

lemma to_double_small: "n < 2 ^ 53 \<Longrightarrow> to_double n = Some n"
  by (simp add: to_double_def)

lemma parseInt10_digits:
  assumes "ds \<noteq> []" and "\<forall>c \<in> set ds. is_digit c"
  shows "parseInt10 ds =
     (case to_double (digits_val 0 ds) of None \<Rightarrow> SeqInfinity | Some v \<Rightarrow> Seq (int v))"
proof -
  from assms obtain c cs where ds: "ds = c # cs" by (cases ds) auto
  with assms have c: "is_digit c" by simp
  from assms have tw: "takeWhile is_digit ds = ds" by (simp add: takeWhile_eq_all_conv)
  from ds c have dw: "dropWhile is_ws ds = ds"
    by (simp add: is_digit_not_ws)
  from ds c have "hd ds \<noteq> CHR ''-''" "hd ds \<noteq> CHR ''+''"
    using is_digit_not_sign [of c] by simp_all
  with assms(1) show ?thesis
    unfolding parseInt10_def Let_def dw by (simp add: tw split: option.splits)
qed

lemma parseInt10_minus_digits:
  assumes "ds \<noteq> []" and "\<forall>c \<in> set ds. is_digit c"
  shows "parseInt10 (CHR ''-'' # ds) =
     (case to_double (digits_val 0 ds) of None \<Rightarrow> SeqNegInfinity | Some v \<Rightarrow> Seq (- int v))"
proof -
  from assms have tw: "takeWhile is_digit ds = ds" by (simp add: takeWhile_eq_all_conv)
  have dw: "dropWhile is_ws (CHR ''-'' # ds) = CHR ''-'' # ds"
    by (simp add: is_ws_def)
  from assms(1) show ?thesis
    unfolding parseInt10_def Let_def dw by (simp add: tw split: option.splits)
qed

text \<open>Below \<open>2^53\<close> reading a plain decimal numeral and printing the number are inverse
  to each other.\<close>

lemma parseInt10_canonical: "n < 2 ^ 53 \<Longrightarrow> parseInt10 (nat_digits n) = Seq (int n)"
  using parseInt10_digits [of "nat_digits n"]
  by (simp add: nat_digits_nonempty nat_digits_all_digits digits_val_nat_digits to_double_small)

lemma integer_to_string_exact: "n < 2 ^ 53 \<Longrightarrow> integer_to_string n = nat_digits n"
  unfolding integer_to_string_def by simp

lemma numToString_small: "n < 2 ^ 53 \<Longrightarrow> numToString (Seq (int n)) = nat_digits n"
  by (simp add: integer_to_string_exact)

lemma numToString_parseInt10_canonical:
  "n < 2 ^ 53 \<Longrightarrow> numToString (parseInt10 (nat_digits n)) = nat_digits n"
  by (simp only: parseInt10_canonical numToString_small)

lemma parseInt10_numToString_small:
  assumes "\<bar>i\<bar> < 2 ^ 53"
  shows "parseInt10 (numToString (Seq i)) = Seq i"
proof (cases "i < 0")
  case True
  with assms have small: "nat (- i) < 2 ^ 53" by simp
  with True show ?thesis
    using parseInt10_minus_digits [of "nat_digits (nat (- i))"]
    by (simp add: integer_to_string_exact nat_digits_nonempty nat_digits_all_digits
        digits_val_nat_digits to_double_small)
next
  case False
  with assms have small: "nat i < 2 ^ 53" by simp
  with False show ?thesis
    using parseInt10_digits [of "nat_digits (nat i)"]
    by (simp add: integer_to_string_exact nat_digits_nonempty nat_digits_all_digits
        digits_val_nat_digits to_double_small)
qed

text \<open>From \<open>2^53\<close> on the number read is the nearest double: the numeral of \<open>2^53 + 1\<close>
  reads as \<open>2^53\<close>.\<close>

lemma bit_length_numeral:
  "bit_length 0 = 0"
  "bit_length (numeral w) = Suc (bit_length (numeral w div 2))"
  by (simp_all add: bit_length.simps [of 0] bit_length.simps [of "numeral w"])

lemma bit_length_one: "bit_length 1 = 1" "bit_length (Suc 0) = Suc 0"
  by (simp_all add: bit_length.simps [of 1] bit_length.simps [of "Suc 0"] bit_length.simps [of 0])

lemma parseInt10_long_id: "parseInt10 ''9007199254740993'' = Seq 9007199254740992"
  by (simp add: parseInt10_def is_ws_def is_digit_def digit_val_def to_double_def Let_def
      bit_length_numeral bit_length_one)

subsection \<open>The translated lines are the parsed lines, in order\<close>

lemma translate_lines_length:
  "translate_lines env jobId tone brief upd triageResult batch w = (Inr ts, w') \<Longrightarrow>
     length ts = length batch"
proof (induction batch arbitrary: w w' ts)
  case Nil
  then show ?case by (simp add: ret_apply)
next
  case (Cons line rest)
  from Cons.prems obtain t w1 where
    "translate_line env jobId tone brief upd triageResult line w = (Inr t, w1)" and
    r: "bind (translate_lines env jobId tone brief upd triageResult rest)
          (\<lambda>translations. ret (t # translations)) w1 = (Inr ts, w')"
    unfolding translate_lines.simps by (rule bind_Inr)
  from r obtain ts' w2 where
    rest: "translate_lines env jobId tone brief upd triageResult rest w1 = (Inr ts', w2)" and
    "ret (t # ts') w2 = (Inr ts, w')"
    by (rule bind_Inr)
  then have "ts = t # ts'" by (simp add: ret_apply)
  with Cons.IH [OF rest] show ?case by simp
qed

lemma translate_batches_lines:
  "translate_batches env jobId tone brief upd n i batches w = (Inr out, w') \<Longrightarrow>
     \<exists>ts. length ts = length (concat batches) \<and>
          out = map2 with_translation (concat batches) ts"
proof (induction batches arbitrary: w w' i out)
  case Nil
  then show ?case by (simp add: ret_apply)
next
  case (Cons batch rest)
  from Cons.prems obtain u1 w1 where
    r1: "bind (triageBatch env batch)
       (\<lambda>triageResult.
     bind (translate_lines env jobId tone brief upd triageResult batch)
       (\<lambda>translatedTextLines.
     bind (translate_batches env jobId tone brief upd n (i + 1) rest)
       (\<lambda>later. ret (map2 with_translation batch translatedTextLines @ later)))) w1 =
       (Inr out, w')"
    unfolding translate_batches.simps by (rule bind_Inr)
  from r1 obtain triageResult w2 where
    r2: "bind (translate_lines env jobId tone brief upd triageResult batch)
       (\<lambda>translatedTextLines.
     bind (translate_batches env jobId tone brief upd n (i + 1) rest)
       (\<lambda>later. ret (map2 with_translation batch translatedTextLines @ later))) w2 =
       (Inr out, w')"
    by (rule bind_Inr)
  from r2 obtain ts1 w3 where
    lines: "translate_lines env jobId tone brief upd triageResult batch w2 = (Inr ts1, w3)" and
    r3: "bind (translate_batches env jobId tone brief upd n (i + 1) rest)
       (\<lambda>later. ret (map2 with_translation batch ts1 @ later)) w3 = (Inr out, w')"
    by (rule bind_Inr)
  from r3 obtain later w4 where
    rest: "translate_batches env jobId tone brief upd n (i + 1) rest w3 = (Inr later, w4)" and
    "ret (map2 with_translation batch ts1 @ later) w4 = (Inr out, w')"
    by (rule bind_Inr)
  then have out: "out = map2 with_translation batch ts1 @ later"
    by (simp add: ret_apply)
  from translate_lines_length [OF lines] have len1: "length ts1 = length batch" .
  from Cons.IH [OF rest] obtain ts2 where
    ts2: "length ts2 = length (concat rest)" "later = map2 with_translation (concat rest) ts2"
    by blast
  from out ts2 len1 have "out = map2 with_translation (concat (batch # rest)) (ts1 @ ts2)"
    by simp
  moreover from len1 ts2 have "length (ts1 @ ts2) = length (concat (batch # rest))"
    by simp
  ultimately show ?case by blast
qed

lemma executeTranslation_output:
  assumes "executeTranslation env jobId content tone brief upd w = (Inr out, w')"
  shows "\<exists>ls ts. parseSrt (srtParser env) content = Inr ls \<and> length ts = length ls \<and>
           out = toSrtString (srtParser env) (map2 with_translation ls ts)"
proof -
  define finish where "finish = (\<lambda>allTranslatedLines.
     bind (upd ''Cleaning up long-term memory...'')
       (\<lambda>_.
     bind (cleanupIndex jobId)
       (\<lambda>_. ret (toSrtString (srtParser env) allTranslatedLines))))"
  have "executeTranslation env jobId content tone brief upd =
     bind (lift (parseSrt (srtParser env) content))
       (\<lambda>srtLines.
     bind (upd ''Indexing script for long-term memory...'')
       (\<lambda>_.
     bind (indexContent env jobId srtLines)
       (\<lambda>_.
     bind (translate_batches env jobId tone brief upd
             (length (slices linesPerBatch 0 srtLines)) 0 (slices linesPerBatch 0 srtLines))
       finish)))"
    by (simp add: executeTranslation_def finish_def Let_def)
  with assms have run: "bind (lift (parseSrt (srtParser env) content))
       (\<lambda>srtLines.
     bind (upd ''Indexing script for long-term memory...'')
       (\<lambda>_.
     bind (indexContent env jobId srtLines)
       (\<lambda>_.
     bind (translate_batches env jobId tone brief upd
             (length (slices linesPerBatch 0 srtLines)) 0 (slices linesPerBatch 0 srtLines))
       finish))) w = (Inr out, w')"
    by simp
  from run obtain ls w1 where
    parsed: "lift (parseSrt (srtParser env) content) w = (Inr ls, w1)" and
    r1: "bind (upd ''Indexing script for long-term memory...'')
       (\<lambda>_.
     bind (indexContent env jobId ls)
       (\<lambda>_.
     bind (translate_batches env jobId tone brief upd
             (length (slices linesPerBatch 0 ls)) 0 (slices linesPerBatch 0 ls))
       finish)) w1 = (Inr out, w')"
    by (rule bind_Inr)
  from r1 obtain u2 w2 where
    r2: "bind (indexContent env jobId ls)
       (\<lambda>_.
     bind (translate_batches env jobId tone brief upd
             (length (slices linesPerBatch 0 ls)) 0 (slices linesPerBatch 0 ls))
       finish) w2 = (Inr out, w')"
    by (rule bind_Inr)
  from r2 obtain u3 w3 where
    r3: "bind (translate_batches env jobId tone brief upd
             (length (slices linesPerBatch 0 ls)) 0 (slices linesPerBatch 0 ls))
       finish w3 = (Inr out, w')"
    by (rule bind_Inr)
  from r3 obtain allTranslatedLines w4 where
    tb: "translate_batches env jobId tone brief upd
             (length (slices linesPerBatch 0 ls)) 0 (slices linesPerBatch 0 ls) w3 =
           (Inr allTranslatedLines, w4)" and
    fin: "finish allTranslatedLines w4 = (Inr out, w')"
    by (rule bind_Inr)
  from fin have out: "out = toSrtString (srtParser env) allTranslatedLines"
    by (auto simp: finish_def cleanupIndex_def prog_apply split: prod.splits sum.splits)
  from translate_batches_lines [OF tb] obtain ts where
    "length ts = length (concat (slices linesPerBatch 0 ls))"
    "allTranslatedLines = map2 with_translation (concat (slices linesPerBatch 0 ls)) ts"
    by blast
  then have "length ts = length ls" "allTranslatedLines = map2 with_translation ls ts"
    by (simp_all add: concat_slices linesPerBatch_def)
  moreover from parsed have "parseSrt (srtParser env) content = Inr ls"
    by (simp add: lift_apply)
  ultimately show ?thesis using out by blast
qed

text \<open>
  Claim C8, as the code has it.  Let the library parse \<open>x\<close> structurally into the blocks
  \<open>srtArray\<close>, and let \<open>ts\<close> be one translation per block.  Then \<open>parseSrt\<close> returns one
  line per block, and rendering these lines with the translations substituted hands the
  serialiser, in the same order, one block per block of \<open>x\<close>, with the block's start and
  end timestamps unchanged and the translation as its text.  Its id is the printed form
  of the double that \<^verbatim>\<open>parseInt\<close> reads from the id of \<open>x\<close>: the same number when that
  is below \<open>2^53\<close> in magnitude, and the same string when the id of \<open>x\<close> is a decimal
  numeral below \<open>2^53\<close> without sign or leading zero.  When every id of \<open>x\<close> is such a
  numeral, the rendered text is what the library writes for the blocks of \<open>x\<close>
  themselves with the translations as their texts.
\<close>

theorem render_parse_roundtrip:
  assumes "fromSrt parser x = Inr srtArray" and "length ts = length srtArray"
  shows "\<exists>ls. parseSrt parser x = Inr ls \<and> length ls = length srtArray \<and>
     toSrtString parser (map2 with_translation ls ts) =
       toSrt parser (map srt_item (map2 with_translation ls ts)) \<and>
     length (map srt_item (map2 with_translation ls ts)) = length srtArray \<and>
     (\<forall>i < length srtArray.
        item_startTime (map srt_item (map2 with_translation ls ts) ! i) = lstartTime (srtArray ! i) \<and>
        item_endTime (map srt_item (map2 with_translation ls ts) ! i) = lendTime (srtArray ! i) \<and>
        item_text (map srt_item (map2 with_translation ls ts) ! i) = ts ! i \<and>
        item_id (map srt_item (map2 with_translation ls ts) ! i) =
          numToString (parseInt10 (lid (srtArray ! i))) \<and>
        (\<forall>v. parseInt10 (lid (srtArray ! i)) = Seq v \<and> \<bar>v\<bar> < 2 ^ 53 \<longrightarrow>
           parseInt10 (item_id (map srt_item (map2 with_translation ls ts) ! i)) = Seq v) \<and>
        (\<forall>n < 2 ^ 53. lid (srtArray ! i) = nat_digits n \<longrightarrow>
           item_id (map srt_item (map2 with_translation ls ts) ! i) = lid (srtArray ! i))) \<and>
     ((\<forall>b \<in> set srtArray. \<exists>n < 2 ^ 53. lid b = nat_digits n) \<longrightarrow>
        toSrtString parser (map2 with_translation ls ts) =
          toSrt parser (map2 translated_block srtArray ts))"
proof -
  let ?ls = "map parsed_line srtArray"
  let ?items = "map srt_item (map2 with_translation ?ls ts)"
  from assms(1) have parsed: "parseSrt parser x = Inr ?ls"
    by (rule parseSrt_blocks)
  have len: "length ?items = length srtArray"
    using assms(2) by simp
  have item: "?items ! i =
      \<lparr> item_id = numToString (parseInt10 (lid (srtArray ! i))),
        item_startTime = lstartTime (srtArray ! i), item_endTime = lendTime (srtArray ! i),
        item_text = ts ! i \<rparr>" if "i < length srtArray" for i
    using that assms(2)
    by (simp add: srt_item_def with_translation_def parsed_line_def Let_def)
  have each: "item_startTime (?items ! i) = lstartTime (srtArray ! i) \<and>
        item_endTime (?items ! i) = lendTime (srtArray ! i) \<and>
        item_text (?items ! i) = ts ! i \<and>
        item_id (?items ! i) = numToString (parseInt10 (lid (srtArray ! i))) \<and>
        (\<forall>v. parseInt10 (lid (srtArray ! i)) = Seq v \<and> \<bar>v\<bar> < 2 ^ 53 \<longrightarrow>
           parseInt10 (item_id (?items ! i)) = Seq v) \<and>
        (\<forall>n < 2 ^ 53. lid (srtArray ! i) = nat_digits n \<longrightarrow>
           item_id (?items ! i) = lid (srtArray ! i))" if "i < length srtArray" for i
  proof -
    have "parseInt10 (numToString (parseInt10 (lid (srtArray ! i)))) = Seq v"
      if "parseInt10 (lid (srtArray ! i)) = Seq v" and "\<bar>v\<bar> < 2 ^ 53" for v
      using that by (simp only: parseInt10_numToString_small)
    moreover have "numToString (parseInt10 (lid (srtArray ! i))) = lid (srtArray ! i)"
      if "n < 2 ^ 53" and "lid (srtArray ! i) = nat_digits n" for n :: nat
      using that by (simp only: numToString_parseInt10_canonical)
    ultimately show ?thesis
      unfolding item [OF that] by simp
  qed
  have toSrt: "toSrtString parser (map2 with_translation ?ls ts) = toSrt parser ?items"
    by (simp only: toSrtString_def)
  have rendered: "toSrtString parser (map2 with_translation ?ls ts) =
      toSrt parser (map2 translated_block srtArray ts)"
    if canonical: "\<forall>b \<in> set srtArray. \<exists>n < 2 ^ 53. lid b = nat_digits n"
  proof -
    have "?items ! i = map2 translated_block srtArray ts ! i" if "i < length srtArray" for i
    proof -
      from that canonical obtain n :: nat where "n < 2 ^ 53" "lid (srtArray ! i) = nat_digits n"
        using nth_mem [of i srtArray] by blast
      then have "numToString (parseInt10 (lid (srtArray ! i))) = lid (srtArray ! i)"
        by (simp add: numToString_parseInt10_canonical)
      with that assms(2) show ?thesis
        unfolding item [OF that] by (simp add: translated_block_def)
    qed
    with len assms(2) have "?items = map2 translated_block srtArray ts"
      by (intro nth_equalityI) simp_all
    with toSrt show ?thesis by simp
  qed
  have "length ?ls = length srtArray" by simp
  with parsed len toSrt each rendered show ?thesis
    by (intro exI [of _ ?ls] conjI allI impI) blast+
qed
theorem render_parse_roundtrip_witness:
  "\<exists>ls. parseSrt one_block_parser sample_srt = Inr ls \<and> length ls = 1 \<and>
     toSrtString one_block_parser (map2 with_translation ls [''salam'']) = sample_output \<and>
     item_id (map srt_item (map2 with_translation ls [''salam'']) ! 0) = ''1'' \<and>
     item_startTime (map srt_item (map2 with_translation ls [''salam'']) ! 0) = ''00:00:01,000'' \<and>
     item_endTime (map srt_item (map2 with_translation ls [''salam'']) ! 0) = ''00:00:02,000'' \<and>
     item_text (map srt_item (map2 with_translation ls [''salam'']) ! 0) = ''salam''"
proof -
  define raw where "raw = \<lparr> lid = ''1'', lstartTime = ''00:00:01,000'', lstartSeconds = Num 1,
                               lendTime = ''00:00:02,000'', lendSeconds = Num 2,
                               ltext = ''Hello'' \<rparr>"
  have parsed: "fromSrt one_block_parser sample_srt = Inr [raw]"
    by (simp add: one_block_parser_def raw_def)
  have len: "length [''salam''] = length [raw]" by simp
  from render_parse_roundtrip [OF parsed len] obtain ls where
    ls: "parseSrt one_block_parser sample_srt = Inr ls" "length ls = length [raw]" and
    each: "\<forall>i < length [raw].
        item_startTime (map srt_item (map2 with_translation ls [''salam'']) ! i) = lstartTime ([raw] ! i) \<and>
        item_endTime (map srt_item (map2 with_translation ls [''salam'']) ! i) = lendTime ([raw] ! i) \<and>
        item_text (map srt_item (map2 with_translation ls [''salam'']) ! i) = [''salam''] ! i \<and>
        item_id (map srt_item (map2 with_translation ls [''salam'']) ! i) =
          numToString (parseInt10 (lid ([raw] ! i))) \<and>
        (\<forall>v. parseInt10 (lid ([raw] ! i)) = Seq v \<and> \<bar>v\<bar> < 2 ^ 53 \<longrightarrow>
           parseInt10 (item_id (map srt_item (map2 with_translation ls [''salam'']) ! i)) = Seq v) \<and>
        (\<forall>n < 2 ^ 53. lid ([raw] ! i) = nat_digits n \<longrightarrow>
           item_id (map srt_item (map2 with_translation ls [''salam'']) ! i) = lid ([raw] ! i))" and
    whole: "(\<forall>b \<in> set [raw]. \<exists>n < 2 ^ 53. lid b = nat_digits n) \<longrightarrow>
        toSrtString one_block_parser (map2 with_translation ls [''salam'']) =
          toSrt one_block_parser (map2 translated_block [raw] [''salam''])"
    by blast
  have canonical: "lid raw = nat_digits 1"
    by (simp add: raw_def nat_digits_small digit_char_numerals digit_char_Suc_0)
  have small: "(1 :: nat) < 2 ^ 53" by simp
  let ?item = "map srt_item (map2 with_translation ls [''salam'']) ! 0"
  have "0 < length [raw]" by simp
  with each have
    st: "item_startTime ?item = lstartTime ([raw] ! 0)" and
    en: "item_endTime ?item = lendTime ([raw] ! 0)" and
    tx: "item_text ?item = [''salam''] ! 0" and
    idn: "\<forall>n < 2 ^ 53. lid ([raw] ! 0) = nat_digits n \<longrightarrow> item_id ?item = lid ([raw] ! 0)"
    by blast+
  from idn canonical small have "item_id ?item = lid ([raw] ! 0)" by auto
  with st en tx have items:
    "item_startTime ?item = ''00:00:01,000''" "item_endTime ?item = ''00:00:02,000''"
    "item_id ?item = ''1''" "item_text ?item = ''salam''"
    by (simp_all add: raw_def)
  from canonical small have "\<exists>n < 2 ^ 53. lid raw = nat_digits n"
    by blast
  then have "\<forall>b \<in> set [raw]. \<exists>n < 2 ^ 53. lid b = nat_digits n"
    by simp
  with whole have "toSrtString one_block_parser (map2 with_translation ls [''salam'']) =
      toSrt one_block_parser (map2 translated_block [raw] [''salam''])"
    by blast
  then have "toSrtString one_block_parser (map2 with_translation ls [''salam'']) = sample_output"
    by (simp add: toSrt_one_block write_blocks_def translated_block_def raw_def sample_output_def)
  with items ls show ?thesis by auto
qed

subsection \<open>An id that is no double\<close>

lemma nat_digits_numeral:
  "nat_digits (numeral w) =
     (if (numeral w :: nat) < 10 then [digit_char (numeral w)]
      else nat_digits (numeral w div 10) @ [digit_char (numeral w mod 10)])"
  by (rule nat_digits.simps)

lemma digit_counts: "[Suc 0 ..< 18] = [1, 2, 3, 4, 5, 6, 7, 8, 9, 10, 11, 12, 13, 14, 15, 16, 17]"
  by (simp add: upt_rec)

lemma integer_to_string_2_53: "integer_to_string 9007199254740992 = ''9007199254740992''"
  by (simp add: integer_to_string_def digit_candidates_def to_double_def distance_def Let_def
      bit_length_numeral bit_length_one nat_digits_numeral digit_char_numerals digit_char_Suc_0
      nat_digits_small digit_counts)

lemma parse_long_id: "parseSrt long_id_parser long_id_srt = Inr [long_id_line]"
  by (simp add: parseSrt_def try_catch_def long_id_parser_def long_id_block_def long_id_line_def
      parsed_line_def difference_parsed_line isNaN_def parseInt10_long_id trim_def is_ws_def)

text \<open>
  Claim C8 as stated fails: the sequence number is a double.  The block numbered
  \<open>9007199254740993\<close> (\<open>2^53 + 1\<close>) is parsed structurally, its id reads as the double
  \<open>2^53\<close>, and the rendered text numbers the block \<open>9007199254740992\<close>.
\<close>

theorem render_rounds_long_id:
  "fromSrt long_id_parser long_id_srt = Inr [long_id_block] \<and>
   lid long_id_block = ''9007199254740993'' \<and>
   parseSrt long_id_parser long_id_srt = Inr [long_id_line] \<and>
   item_id (srt_item (with_translation long_id_line ''salam'')) = ''9007199254740992'' \<and>
   toSrtString long_id_parser (map2 with_translation [long_id_line] [''salam'']) = long_id_output"
  using parse_long_id
  by (simp add: long_id_parser_def long_id_block_def long_id_line_def long_id_output_def
      toSrtString_def srt_item_def with_translation_def write_blocks_def integer_to_string_2_53)
section \<open>The gateway's errors\<close>

text \<open>The two generation operations wrap every fault in one plain error each.\<close>

lemma runJsonTool_error:
  "fst (runJsonTool env m p w) = Inl e \<Longrightarrow>
     e = Error ''An internal AI error occurred while processing data.''"
  by (auto simp: runJsonTool_def prog_apply split: sum.splits prod.splits)

lemma runTextGen_error:
  "fst (runTextGen env m p w) = Inl e \<Longrightarrow>
     e = Error ''An internal AI error occurred during translation.''"
  by (auto simp: runTextGen_def prog_apply split: sum.splits prod.splits)

text \<open>The embedding calls are not wrapped: what the provider throws is what the caller
  gets.\<close>

lemma indexContent_embedding_fault:
  "batchEmbedContents env (trace w) (map text' lines) = Inl e \<Longrightarrow>
     fst (indexContent env jobId lines w) = Inl e"
  by (simp add: indexContent_def prog_apply)

lemma queryContext_embedding_fault:
  "embedContent env (trace w) content = Inl e \<Longrightarrow>
     fst (queryContext env jobId content topK w) = Inl e"
  by (simp add: queryContext_def prog_apply)

lemma quota_attempt:
  "processJob quota_env sample_job empty_world =
     (Inl (Upstream ''429 Resource has been exhausted''),
      \<lparr> trace = take 17 (attempt_trace quota_env) @ 
          [Emit ''job-1'' (Failed ''429 Resource has been exhausted'')],
        pinecone = Map.empty \<rparr>)"
  by (simp add: eval_simps quota_env_def happy_env_def)

text \<open>
  Claim C4 at a failing input: the batch embedding call runs out of quota.  Indexing
  fails with the provider's own error, and the \<^verbatim>\<open>failed\<close> event of the attempt carries the
  provider's message.
\<close>

theorem embedding_fault_not_wrapped:
  "fst (indexContent quota_env ''job-1'' [sample_line] empty_world) =
     Inl (Upstream ''429 Resource has been exhausted'') \<and>
   filter terminal (bus_events ''job-1'' (trace (snd (processJob quota_env sample_job empty_world)))) =
     [Failed ''429 Resource has been exhausted'']"
proof
  have "batchEmbedContents quota_env (trace empty_world) (map text' [sample_line]) =
          Inl (Upstream ''429 Resource has been exhausted'')"
    by (simp add: quota_env_def)
  then show "fst (indexContent quota_env ''job-1'' [sample_line] empty_world) =
     Inl (Upstream ''429 Resource has been exhausted'')"
    by (rule indexContent_embedding_fault)
next
  show "filter terminal
          (bus_events ''job-1'' (trace (snd (processJob quota_env sample_job empty_world)))) =
        [Failed ''429 Resource has been exhausted'']"
    unfolding quota_attempt by (simp add: attempt_trace_def stage_effects_def)
qed

section \<open>Retries\<close>

lemma flaky_run:
  "runJob flaky_env sample_job empty_world =
     (Inr sample_output,
      \<lparr> trace = failed_attempt_trace @ attempt_trace flaky_env,
        pinecone = [''job-1-1'' \<mapsto> sample_vector] \<rparr>)"
  by (simp add: eval_simps flaky_env_def happy_env_def failed_attempt_trace_def flashModel_def)

text \<open>Every attempt that fails publishes \<^verbatim>\<open>failed\<close> as its last effect, whether or not the
  queue will run the job again; so a job whose first attempt fails and whose second
  attempt completes has published both terminal events, for every behaviour of the
  collaborators.\<close>

lemma failed_attempt_publishes_failed:
  assumes "processJob env job w = (Inl e, w')"
  shows "trace w' = butlast (trace w') @ [Emit (d_jobId job) (Failed (message e))]"
  using assms
  by (auto simp: processJob_def catch_apply [of _ _ w] bind_apply [of "perform _"] perform_apply
      throw_apply split: prod.splits sum.splits)

lemma completed_attempt_publishes_completed:
  assumes "processJob env job w = (Inr out, w')"
  shows "trace w' = butlast (trace w') @ [Emit (d_jobId job) (Completed out)]"
proof -
  define pre where "pre =
        bind (updateStage (d_jobId job) ''Generating blueprint...'')
          (\<lambda>_.
        bind (generateBlueprint env (d_subtitleContent job) (d_tone job) (d_userGlossary job)
                (updateStage (d_jobId job)))
          (\<lambda>blueprint.
        bind (lift (stringifyBlueprint blueprint))
          (\<lambda>translationBrief.
        bind (perform (Emit (d_jobId job) (BlueprintReady blueprint)))
          (\<lambda>_.
        bind (updateStage (d_jobId job) ''Executing translation...'')
          (\<lambda>_.
        executeTranslation env (d_jobId job) (d_subtitleContent job) (d_tone job)
                translationBrief (updateStage (d_jobId job)))))))"
  have struct: "processJob env job =
     catch (bind pre (\<lambda>finalTranslation.
              bind (perform (Emit (d_jobId job) (Completed finalTranslation)))
                (\<lambda>_. ret finalTranslation)))
       (\<lambda>error.
          bind (perform (Emit (d_jobId job) (Failed (message error)))) (\<lambda>_. throw error))"
    by (simp add: processJob_def pre_def bind_assoc)
  from assms show ?thesis
    unfolding struct
    by (auto simp: catch_apply [of _ _ w] bind_apply [of pre] bind_apply [of "perform _"]
        perform_apply throw_apply ret_apply split: prod.splits sum.splits)
qed

lemma retried_job_publishes_both:
  assumes first: "processJob env job w = (Inl e, w1)"
    and second: "processJob env job w1 = (Inr out, w2)"
  shows "runJob env job w = (Inr out, w2) \<and>
         Emit (d_jobId job) (Failed (message e)) \<in> set (trace w2) \<and>
         Emit (d_jobId job) (Completed out) \<in> set (trace w2)"
proof -
  have run: "runJob env job w = (Inr out, w2)"
    using first second by (simp add: runJob_def job_attempts_def catch_apply)
  from scoped_processJob [of job env] obtain es where
    "trace (snd (processJob env job w1)) = trace w1 @ es"
    by (rule only_effectsD)
  with second have ext: "trace w2 = trace w1 @ es" by simp
  from failed_attempt_publishes_failed [OF first]
  have "Emit (d_jobId job) (Failed (message e)) \<in> set (trace w1)"
    by (metis in_set_conv_decomp)
  with ext have f: "Emit (d_jobId job) (Failed (message e)) \<in> set (trace w2)" by simp
  from completed_attempt_publishes_completed [OF second]
  have c: "Emit (d_jobId job) (Completed out) \<in> set (trace w2)"
    by (metis in_set_conv_decomp)
  from run f c show ?thesis by blast
qed

text \<open>
  Claim C1 at a failing input: the generation service is down during the first attempt
  and up during the second.  The job completes, and the bus has carried two terminal
  events for it: \<^verbatim>\<open>failed\<close> for the first attempt, \<^verbatim>\<open>completed\<close> for the second.
\<close>

theorem retried_job_two_terminal_events:
  "fst (runJob flaky_env sample_job empty_world) = Inr sample_output \<and>
   filter terminal (bus_events ''job-1'' (trace (snd (runJob flaky_env sample_job empty_world)))) =
     [Failed ''An internal AI error occurred while processing data.'', Completed sample_output]"
  by (simp add: flaky_run failed_attempt_trace_def attempt_trace_def stage_effects_def)

section \<open>Blueprint\<close>

lemma runJsonTool_Inr:
  assumes "runJsonTool env m p w = (Inr j, w')"
  shows "\<exists>response. generateContent env (trace w) m True p = Inr response \<and>
           JSON_parse env response = Inr j"
  using assms by (auto simp: runJsonTool_def prog_apply split: sum.splits prod.splits)

lemma blueprint_check_Inr:
  assumes "(case (blueprint, gl) of
       (BlueprintJson b, Some entries) \<Rightarrow> ret b
     | _ \<Rightarrow> throw (Error ''AI failed to generate a valid blueprint.'')) w = (Inr r, w')"
  shows "blueprint = BlueprintJson r \<and> gl \<noteq> None"
  using assms by (cases blueprint; cases gl) (simp_all add: ret_apply throw_apply)

lemma getPhase1C_Prompt_glossary:
  \<open>\<exists>before after. getPhase1C_Prompt env subtitle tone groundedKeywords userGlossary =
     before @ ''    **User-Provided Glossary:** '' @ stringify_glossary env userGlossary @ after\<close>
proof -
  define before where
    \<open>before =
       ''Generate a "Translation Blueprint" JSON. Analyze the script for summary, '' @
       ''keyPoints, characterProfiles, and culturalNuances.\<newline>'' @
       ''    **Glossary Rules (CRITICAL):**\<newline>'' @
       ''    1.  The User-Provided Glossary is SACROSANCT. For every term in it, its '' @
       ''translation MUST be used as the \'proposedTranslation\'.\<newline>'' @
       ''    2.  For the remaining AI-Generated Keywords, select the best '' @ [CHR 0x27] @
       ''proposedTranslation\' from its \'translations\' array based on the '' @ [CHR 0x27] @
       tone @ [CHR 0x27] @ '' tone and script context.\<newline>'' @
       ''    3.  Justify each choice with evidence from the script.\<newline>''\<close>
  define after where
    \<open>after =
       ''\<newline>'' @ ''    **AI-Generated Keywords:** '' @
       stringify_grounded env groundedKeywords @ ''\<newline>'' @ ''    **Script:** """'' @
       subtitle @ ''"""''\<close>
  have "getPhase1C_Prompt env subtitle tone groundedKeywords userGlossary =
     before @ ''    **User-Provided Glossary:** '' @ stringify_glossary env userGlossary @ after"
    by (simp add: getPhase1C_Prompt_def before_def after_def)
  then show ?thesis by blast
qed

text \<open>
  Claim C2, as the code has it.  A blueprint that \<^verbatim>\<open>generateBlueprint\<close> returns is,
  unchanged, the parsed response of the assembly model to a prompt that quotes the
  serialised user glossary after the heading \<^verbatim>\<open>**User-Provided Glossary:**\<close>, and it has a
  glossary.  Nothing is checked or overwritten afterwards: whether the entry for a user
  term carries the user's translation is up to the model's response.
\<close>

theorem generateBlueprint_returns_response:
  assumes "generateBlueprint env content tone userGlossary upd w = (Inr b, w')"
  shows "\<exists>h subtitleText groundedKeywords response entries.
     generateContent env h proModel True
       (getPhase1C_Prompt env subtitleText tone groundedKeywords userGlossary) = Inr response \<and>
     JSON_parse env response = Inr (BlueprintJson b) \<and>
     glossary b = Some entries \<and>
     (\<exists>before after. getPhase1C_Prompt env subtitleText tone groundedKeywords userGlossary =
        before @ ''    **User-Provided Glossary:** '' @ stringify_glossary env userGlossary @ after)"
proof -
  define assemble where "assemble = (\<lambda>subtitleText groundedKeywords.
     bind (upd ''Phase 1c: Assembling Blueprint...'')
       (\<lambda>_.
     bind (runJsonTool env proModel
             (getPhase1C_Prompt env subtitleText tone groundedKeywords userGlossary))
       (\<lambda>blueprint.
     bind (lift (prop_glossary blueprint))
       (\<lambda>gl.
     case (blueprint, gl) of
       (BlueprintJson b, Some entries) \<Rightarrow> ret b
     | _ \<Rightarrow> throw (Error ''AI failed to generate a valid blueprint.'')))))"
  define ground where "ground = (\<lambda>subtitleText keywords.
     bind (upd ''Phase 1b: Grounding Translations...'')
       (\<lambda>_.
     bind (runJsonTool env flashModel (getPhase1B_Prompt env keywords))
       (\<lambda>r2.
     bind (lift (prop_grounded_keywords r2))
       (\<lambda>g. assemble subtitleText (case g of None \<Rightarrow> [] | Some gs \<Rightarrow> gs)))))"
  define phase1a where "phase1a = (\<lambda>subtitleText.
     bind (upd ''Phase 1a: Extracting Keywords...'')
       (\<lambda>_.
     bind (runJsonTool env flashModel (getPhase1A_Prompt subtitleText))
       (\<lambda>r1.
     bind (lift (prop_keywords r1))
       (\<lambda>k. ground subtitleText (case k of None \<Rightarrow> [] | Some ks \<Rightarrow> ks)))))"
  have "generateBlueprint env content tone userGlossary upd =
     bind (lift (parseSrt (srtParser env) content))
       (\<lambda>lines. phase1a (join ''\<newline>'' (map text' lines)))"
    by (simp add: generateBlueprint_def phase1a_def ground_def assemble_def Let_def)
  with assms have "bind (lift (parseSrt (srtParser env) content))
       (\<lambda>lines. phase1a (join ''\<newline>'' (map text' lines))) w = (Inr b, w')"
    by simp
  then obtain lines :: "SrtLine list" and w1 where
    r1: "phase1a (join ''\<newline>'' (map text' lines)) w1 = (Inr b, w')"
    by (rule bind_Inr) blast
  define subtitleText where "subtitleText = join ''\<newline>'' (map text' lines)"
  from r1 have "bind (upd ''Phase 1a: Extracting Keywords...'')
       (\<lambda>_.
     bind (runJsonTool env flashModel (getPhase1A_Prompt subtitleText))
       (\<lambda>r1.
     bind (lift (prop_keywords r1))
       (\<lambda>k. ground subtitleText (case k of None \<Rightarrow> [] | Some ks \<Rightarrow> ks)))) w1 = (Inr b, w')"
    by (simp add: phase1a_def subtitleText_def)
  then obtain u1 w1a where
    "bind (runJsonTool env flashModel (getPhase1A_Prompt subtitleText))
       (\<lambda>r1.
     bind (lift (prop_keywords r1))
       (\<lambda>k. ground subtitleText (case k of None \<Rightarrow> [] | Some ks \<Rightarrow> ks))) w1a = (Inr b, w')"
    by (rule bind_Inr) blast
  then obtain j1 w1b where
    "bind (lift (prop_keywords j1))
       (\<lambda>k. ground subtitleText (case k of None \<Rightarrow> [] | Some ks \<Rightarrow> ks)) w1b = (Inr b, w')"
    by (rule bind_Inr) blast
  then obtain k w2 where
    "ground subtitleText (case k of None \<Rightarrow> [] | Some ks \<Rightarrow> ks) w2 = (Inr b, w')"
    by (rule bind_Inr) blast
  then have "bind (upd ''Phase 1b: Grounding Translations...'')
       (\<lambda>_.
     bind (runJsonTool env flashModel
             (getPhase1B_Prompt env (case k of None \<Rightarrow> [] | Some ks \<Rightarrow> ks)))
       (\<lambda>r2.
     bind (lift (prop_grounded_keywords r2))
       (\<lambda>g. assemble subtitleText (case g of None \<Rightarrow> [] | Some gs \<Rightarrow> gs)))) w2 = (Inr b, w')"
    by (simp add: ground_def)
  then obtain u2 w2a where
    "bind (runJsonTool env flashModel
             (getPhase1B_Prompt env (case k of None \<Rightarrow> [] | Some ks \<Rightarrow> ks)))
       (\<lambda>r2.
     bind (lift (prop_grounded_keywords r2))
       (\<lambda>g. assemble subtitleText (case g of None \<Rightarrow> [] | Some gs \<Rightarrow> gs))) w2a = (Inr b, w')"
    by (rule bind_Inr) blast
  then obtain j2 w2b where
    "bind (lift (prop_grounded_keywords j2))
       (\<lambda>g. assemble subtitleText (case g of None \<Rightarrow> [] | Some gs \<Rightarrow> gs)) w2b = (Inr b, w')"
    by (rule bind_Inr) blast
  then obtain g w3 where
    "assemble subtitleText (case g of None \<Rightarrow> [] | Some gs \<Rightarrow> gs) w3 = (Inr b, w')"
    by (rule bind_Inr) blast
  then obtain groundedKeywords where
    "assemble subtitleText groundedKeywords w3 = (Inr b, w')"
    by blast
  then have r3: "bind (upd ''Phase 1c: Assembling Blueprint...'')
       (\<lambda>_.
     bind (runJsonTool env proModel
             (getPhase1C_Prompt env subtitleText tone groundedKeywords userGlossary))
       (\<lambda>blueprint.
     bind (lift (prop_glossary blueprint))
       (\<lambda>gl.
     case (blueprint, gl) of
       (BlueprintJson b, Some entries) \<Rightarrow> ret b
     | _ \<Rightarrow> throw (Error ''AI failed to generate a valid blueprint.'')))) w3 = (Inr b, w')"
    by (simp add: assemble_def)
  from r3 obtain u4 w4 where
    r4: "bind (runJsonTool env proModel
             (getPhase1C_Prompt env subtitleText tone groundedKeywords userGlossary))
       (\<lambda>blueprint.
     bind (lift (prop_glossary blueprint))
       (\<lambda>gl.
     case (blueprint, gl) of
       (BlueprintJson b, Some entries) \<Rightarrow> ret b
     | _ \<Rightarrow> throw (Error ''AI failed to generate a valid blueprint.''))) w4 = (Inr b, w')"
    by (rule bind_Inr) blast
  from r4 obtain blueprint w5 where
    tool: "runJsonTool env proModel
             (getPhase1C_Prompt env subtitleText tone groundedKeywords userGlossary) w4 =
           (Inr blueprint, w5)" and
    r5: "bind (lift (prop_glossary blueprint))
       (\<lambda>gl.
     case (blueprint, gl) of
       (BlueprintJson b, Some entries) \<Rightarrow> ret b
     | _ \<Rightarrow> throw (Error ''AI failed to generate a valid blueprint.'')) w5 = (Inr b, w')"
    by (rule bind_Inr)
  from r5 obtain gl w6 where
    gl: "lift (prop_glossary blueprint) w5 = (Inr gl, w6)" and
    chk: "(case (blueprint, gl) of
       (BlueprintJson b, Some entries) \<Rightarrow> ret b
     | _ \<Rightarrow> throw (Error ''AI failed to generate a valid blueprint.'')) w6 = (Inr b, w')"
    by (rule bind_Inr)
  from blueprint_check_Inr [OF chk] have bp: "blueprint = BlueprintJson b" and "gl \<noteq> None"
    by simp_all
  with gl obtain entries where entries: "glossary b = Some entries"
    by (auto simp: lift_apply)
  from runJsonTool_Inr [OF tool] bp obtain response where
    "generateContent env (trace w4) proModel True
       (getPhase1C_Prompt env subtitleText tone groundedKeywords userGlossary) = Inr response"
    "JSON_parse env response = Inr (BlueprintJson b)"
    by blast
  with entries getPhase1C_Prompt_glossary [of env subtitleText tone groundedKeywords userGlossary]
  show ?thesis by blast
qed

lemma stubborn_run:
  "\<exists>tr. generateBlueprint stubborn_env sample_srt ''Casual'' user_glossary
          (updateStage ''job-1'') empty_world =
        (Inr stubborn_blueprint, \<lparr> trace = tr, pinecone = Map.empty \<rparr>)"
  by (simp add: eval_simps stubborn_env_def happy_env_def stubborn_blueprint_def)

theorem generateBlueprint_returns_response_witness:
  "\<exists>h subtitleText groundedKeywords response.
     generateContent stubborn_env h proModel True
       (getPhase1C_Prompt stubborn_env subtitleText ''Casual'' groundedKeywords user_glossary) =
       Inr response \<and>
     JSON_parse stubborn_env response = Inr (BlueprintJson stubborn_blueprint) \<and>
     glossary stubborn_blueprint = Some [stubborn_entry]"
proof -
  from stubborn_run obtain tr where
    "generateBlueprint stubborn_env sample_srt ''Casual'' user_glossary
          (updateStage ''job-1'') empty_world =
        (Inr stubborn_blueprint, \<lparr> trace = tr, pinecone = Map.empty \<rparr>)"
    by blast
  from generateBlueprint_returns_response [OF this]
  show ?thesis
    by (auto simp: stubborn_blueprint_def)
qed

text \<open>
  Claim C2 as stated fails: the user glossary translates \<^verbatim>\<open>Hello\<close> as \<^verbatim>\<open>salam\<close>, the
  assembly model answers with \<^verbatim>\<open>dorood\<close> for that term, and the blueprint returned has
  the model's translation.
\<close>

theorem user_glossary_not_enforced:
  "fst (generateBlueprint stubborn_env sample_srt ''Casual''
          [\<lparr> u_term = ''Hello'', u_translation = ''salam'' \<rparr>] (updateStage ''job-1'') empty_world) =
     Inr stubborn_blueprint \<and>
   glossary stubborn_blueprint = Some [stubborn_entry] \<and>
   g_term stubborn_entry = ''Hello'' \<and> proposedTranslation stubborn_entry = ''dorood''"
proof -
  from stubborn_run obtain tr where
    "generateBlueprint stubborn_env sample_srt ''Casual'' user_glossary
          (updateStage ''job-1'') empty_world =
        (Inr stubborn_blueprint, \<lparr> trace = tr, pinecone = Map.empty \<rparr>)"
    by blast
  then show ?thesis
    by (simp add: user_glossary_def stubborn_blueprint_def stubborn_entry_def)
qed

end
